theory Spec2Isabelle
  imports Main "HOL-Library.Word"
begin

unbundle bit_operations_syntax

section \<open>Types and constants\<close>

text \<open>
  The emulator works on 8-bit bytes, 16-bit words and addresses, and a cycle counter.
  The header that declares them is not part of the sources at hand; the widths are those
  of the data model of the specification (registers of 8 bits, a program counter of 16
  bits, a 64-bit unsigned cycle count).
\<close>

type_synonym Byte = "8 word"
type_synonym Word = "16 word"
type_synonym Address = "16 word"
type_synonym Cycles = "64 word"

text \<open>Modelled from the spec: the flag bits of \<open>P\<close> (enum \<open>StatusFlags\<close> of the missing
  header): N=0x80, V=0x40, Unused=0x20, B=0x10, D=0x08, I=0x04, Z=0x02, C=0x01.\<close>

definition FLAG_CARRY :: Byte where "FLAG_CARRY = 0x01"
definition FLAG_ZERO :: Byte where "FLAG_ZERO = 0x02"
definition FLAG_INTERRUPT :: Byte where "FLAG_INTERRUPT = 0x04"
definition FLAG_DECIMAL :: Byte where "FLAG_DECIMAL = 0x08"
definition FLAG_BREAK :: Byte where "FLAG_BREAK = 0x10"
definition FLAG_UNUSED :: Byte where "FLAG_UNUSED = 0x20"
definition FLAG_OVERFLOW :: Byte where "FLAG_OVERFLOW = 0x40"
definition FLAG_NEGATIVE :: Byte where "FLAG_NEGATIVE = 0x80"

text \<open>Modelled from the spec: the fixed addresses of the missing header: stack base 0x0100,
  reset vector 0xFFFC, IRQ/BRK vector 0xFFFE, and the stack pointer after reset, 0xFD.\<close>

definition STACK_BASE :: Address where "STACK_BASE = 0x0100"
definition VECTOR_RESET :: Address where "VECTOR_RESET = 0xFFFC"
definition VECTOR_IRQ_BRK :: Address where "VECTOR_IRQ_BRK = 0xFFFE"
definition STACK_POINTER_RESET :: Byte where "STACK_POINTER_RESET = 0xFD"

section \<open>Memory (Memory.cpp)\<close>

text \<open>
  \<open>Memory::data\<close> is an array of 65536 bytes indexed by a 16-bit address: a total
  function from addresses to bytes. Every metered access takes the cycle counter by
  reference and returns it incremented.
\<close>

type_synonym Memory = "Address \<Rightarrow> Byte"

definition Initialize :: Memory where
  "Initialize = (\<lambda>_. 0)"

definition ReadByte :: "Memory \<Rightarrow> Address \<Rightarrow> Cycles \<Rightarrow> Byte \<times> Cycles" where
  "ReadByte data address cycles = (data address, cycles + 1)"

definition ReadByteNoCycles :: "Memory \<Rightarrow> Address \<Rightarrow> Byte" where
  "ReadByteNoCycles data address = data address"

definition WriteByte :: "Memory \<Rightarrow> Address \<Rightarrow> Byte \<Rightarrow> Cycles \<Rightarrow> Memory \<times> Cycles" where
  "WriteByte data address v cycles = (data(address := v), cycles + 1)"

definition ReadWord :: "Memory \<Rightarrow> Address \<Rightarrow> Cycles \<Rightarrow> Word \<times> Cycles" where
  "ReadWord data address cycles =
     (let (lowByte, cycles) = ReadByte data address cycles;
          (highByte, cycles) = ReadByte data (address + 1) cycles
      in (push_bit 8 (ucast highByte) OR ucast lowByte, cycles))"

definition WriteWord :: "Memory \<Rightarrow> Address \<Rightarrow> Word \<Rightarrow> Cycles \<Rightarrow> Memory \<times> Cycles" where
  "WriteWord data address v cycles =
     (let lowByte = ucast (v AND 0xFF) :: Byte;
          highByte = ucast (drop_bit 8 v AND 0xFF) :: Byte;
          (data, cycles) = WriteByte data address lowByte cycles
      in WriteByte data (address + 1) highByte cycles)"

section \<open>The CPU (CPU.cpp)\<close>

text \<open>
  The CPU object is the record of its registers and of its running cycle total. Every
  method takes the memory by reference, and every helper also the cycle counter of the
  instruction being executed: a \<open>machine\<close> is a CPU together with the contents of that
  memory and the value of that counter, and a method is a function from machines to
  machines (with the value it returns, when it returns one).
\<close>

record CPU =
  A :: Byte
  X :: Byte
  Y :: Byte
  PC :: Word
  SP :: Byte
  P :: Byte
  TotalCycles :: Cycles

record machine = CPU +
  memory :: Memory
  cycles :: Cycles

text \<open>The constructor \<open>CPU::CPU()\<close>.\<close>

definition CPU_new :: CPU where
  "CPU_new = \<lparr>A = 0, X = 0, Y = 0, PC = 0, SP = 0, P = 0, TotalCycles = 0\<rparr>"

text \<open>The machine made of a CPU object, a memory and a cycle counter.\<close>

definition attach :: "CPU \<Rightarrow> Memory \<Rightarrow> Cycles \<Rightarrow> machine" where
  "attach c m k = \<lparr>A = A c, X = X c, Y = Y c, PC = PC c, SP = SP c, P = P c,
     TotalCycles = TotalCycles c, memory = m, cycles = k\<rparr>"

text \<open>The calls \<open>memory.ReadByte(address, cycles)\<close>, \<open>memory.WriteByte(address, value,
  cycles)\<close> and \<open>memory.ReadWord(address, cycles)\<close> of a helper, on the machine.\<close>

definition mem_read :: "Address \<Rightarrow> machine \<Rightarrow> Byte \<times> machine" where
  "mem_read address s =
     (let (v, c) = ReadByte (memory s) address (cycles s) in (v, s\<lparr>cycles := c\<rparr>))"

definition mem_write :: "Address \<Rightarrow> Byte \<Rightarrow> machine \<Rightarrow> machine" where
  "mem_write address v s =
     (let (m, c) = WriteByte (memory s) address v (cycles s) in s\<lparr>memory := m, cycles := c\<rparr>)"

definition mem_read_word :: "Address \<Rightarrow> machine \<Rightarrow> Word \<times> machine" where
  "mem_read_word address s =
     (let (v, c) = ReadWord (memory s) address (cycles s) in (v, s\<lparr>cycles := c\<rparr>))"

subsection \<open>Flags\<close>

text \<open>\<open>P |= flag\<close> and \<open>P &= ~flag\<close>: the result of the \<open>int\<close> operation is cut to a byte.\<close>

definition SetFlag :: "Byte \<Rightarrow> bool \<Rightarrow> machine \<Rightarrow> machine" where
  "SetFlag flag condition s =
     (if condition then s\<lparr>P := P s OR flag\<rparr> else s\<lparr>P := P s AND NOT flag\<rparr>)"

definition GetFlag :: "Byte \<Rightarrow> machine \<Rightarrow> bool" where
  "GetFlag flag s = (P s AND flag \<noteq> 0)"

definition UpdateZeroAndNegativeFlags :: "Byte \<Rightarrow> machine \<Rightarrow> machine" where
  "UpdateZeroAndNegativeFlags v s =
     SetFlag FLAG_NEGATIVE (v AND 0x80 \<noteq> 0) (SetFlag FLAG_ZERO (v = 0) s)"

subsection \<open>Reset\<close>

text \<open>\<open>Reset\<close> hands \<open>TotalCycles\<close> itself to \<open>ReadWord\<close> as the counter to charge.\<close>

definition Reset :: "machine \<Rightarrow> machine" where
  "Reset s =
     (let (v, c) = ReadWord (memory s) VECTOR_RESET (TotalCycles s);
          s = s\<lparr>PC := v, TotalCycles := c\<rparr>;
          s = s\<lparr>SP := STACK_POINTER_RESET\<rparr>;
          s = s\<lparr>P := FLAG_UNUSED\<rparr>;
          s = SetFlag FLAG_INTERRUPT True s;
          s = s\<lparr>A := 0, X := 0, Y := 0\<rparr>
      in s\<lparr>TotalCycles := TotalCycles s + 6\<rparr>)"

subsection \<open>Stack\<close>

definition PushByteToStack :: "Byte \<Rightarrow> machine \<Rightarrow> machine" where
  "PushByteToStack v s =
     (let stackAddress = STACK_BASE + ucast (SP s);
          s = mem_write stackAddress v s
      in s\<lparr>SP := SP s - 1\<rparr>)"

definition PushWordToStack :: "Word \<Rightarrow> machine \<Rightarrow> machine" where
  "PushWordToStack v s =
     (let s = PushByteToStack (ucast (drop_bit 8 v AND 0xFF)) s
      in PushByteToStack (ucast (v AND 0xFF)) s)"

definition PopByteFromStack :: "machine \<Rightarrow> Byte \<times> machine" where
  "PopByteFromStack s =
     (let s = s\<lparr>SP := SP s + 1\<rparr>;
          stackAddress = STACK_BASE + ucast (SP s)
      in mem_read stackAddress s)"

definition PopWordFromStack :: "machine \<Rightarrow> Word \<times> machine" where
  "PopWordFromStack s =
     (let (lowByte, s) = PopByteFromStack s;
          (highByte, s) = PopByteFromStack s
      in (push_bit 8 (ucast highByte) OR ucast lowByte, s))"

subsection \<open>Fetching at the program counter\<close>

definition FetchByte :: "machine \<Rightarrow> Byte \<times> machine" where
  "FetchByte s =
     (let (v, s) = mem_read (PC s) s in (v, s\<lparr>PC := PC s + 1\<rparr>))"

definition FetchWord :: "machine \<Rightarrow> Word \<times> machine" where
  "FetchWord s =
     (let (v, s) = mem_read_word (PC s) s in (v, s\<lparr>PC := PC s + 2\<rparr>))"

subsection \<open>Addressing modes\<close>

text \<open>Each helper returns the effective address and the machine after its fetches. The
  sums of a byte and an index register are bytes (zero page wrap-around); those of an
  address and an index register are 16-bit addresses.\<close>

definition AddrImmediate :: "machine \<Rightarrow> Address \<times> machine" where
  "AddrImmediate s =
     (let address = PC s in (address, s\<lparr>PC := PC s + 1, cycles := cycles s + 1\<rparr>))"

definition AddrZeroPage :: "machine \<Rightarrow> Address \<times> machine" where
  "AddrZeroPage s = (let (zpAddress, s) = FetchByte s in (ucast zpAddress, s))"

definition AddrZeroPageX :: "machine \<Rightarrow> Address \<times> machine" where
  "AddrZeroPageX s =
     (let (zpAddress, s) = FetchByte s;
          finalAddress = zpAddress + X s;
          s = s\<lparr>cycles := cycles s + 1\<rparr>
      in (ucast finalAddress, s))"

definition AddrZeroPageY :: "machine \<Rightarrow> Address \<times> machine" where
  "AddrZeroPageY s =
     (let (zpAddress, s) = FetchByte s;
          finalAddress = zpAddress + Y s;
          s = s\<lparr>cycles := cycles s + 1\<rparr>
      in (ucast finalAddress, s))"

definition AddrAbsolute :: "machine \<Rightarrow> Address \<times> machine" where
  "AddrAbsolute s = FetchWord s"

definition AddrAbsoluteX :: "bool \<Rightarrow> machine \<Rightarrow> Address \<times> machine" where
  "AddrAbsoluteX addCycleOnPageCross s =
     (let (baseAddress, s) = FetchWord s;
          finalAddress = baseAddress + ucast (X s);
          s = (if addCycleOnPageCross
               then (if baseAddress AND 0xFF00 \<noteq> finalAddress AND 0xFF00
                     then s\<lparr>cycles := cycles s + 1\<rparr> else s)
               else s)
      in (finalAddress, s))"

definition AddrAbsoluteY :: "bool \<Rightarrow> machine \<Rightarrow> Address \<times> machine" where
  "AddrAbsoluteY addCycleOnPageCross s =
     (let (baseAddress, s) = FetchWord s;
          finalAddress = baseAddress + ucast (Y s);
          s = (if addCycleOnPageCross
               then (if baseAddress AND 0xFF00 \<noteq> finalAddress AND 0xFF00
                     then s\<lparr>cycles := cycles s + 1\<rparr> else s)
               else s)
      in (finalAddress, s))"

definition AddrIndexedIndirect :: "machine \<Rightarrow> Address \<times> machine" where
  "AddrIndexedIndirect s =
     (let (zpAddress, s) = FetchByte s;
          finalZpAddress = zpAddress + X s;
          s = s\<lparr>cycles := cycles s + 1\<rparr>;
          (lowByte, s) = mem_read (ucast finalZpAddress) s;
          (highByte, s) = mem_read ((ucast finalZpAddress + 1) AND 0xFF) s
      in (push_bit 8 (ucast highByte) OR ucast lowByte, s))"

definition AddrIndirectIndexed :: "bool \<Rightarrow> machine \<Rightarrow> Address \<times> machine" where
  "AddrIndirectIndexed addCycleOnPageCross s =
     (let (zpAddress, s) = FetchByte s;
          (lowByte, s) = mem_read (ucast zpAddress) s;
          (highByte, s) = mem_read ((ucast zpAddress + 1) AND 0xFF) s;
          baseAddress = push_bit 8 (ucast highByte) OR ucast lowByte;
          finalAddress = baseAddress + ucast (Y s);
          s = (if addCycleOnPageCross
               then (if baseAddress AND 0xFF00 \<noteq> finalAddress AND 0xFF00
                     then s\<lparr>cycles := cycles s + 1\<rparr> else s)
               else s)
      in (finalAddress, s))"

text \<open>Modelled from the spec: the default value of the parameter \<open>addCycleOnPageCross\<close>,
  declared in the missing header. Read instructions, which call the helpers without the
  argument, pay the page-cross tick (\<open>LDA abs,X\<close> costs 5 ticks on a crossing, 4
  otherwise), so the default is \<open>true\<close>.\<close>

definition addCycleOnPageCross_default :: bool where
  "addCycleOnPageCross_default = True"

subsection \<open>Load and store\<close>

definition LDA :: "Address \<Rightarrow> machine \<Rightarrow> machine" where
  "LDA address s =
     (let (v, s) = mem_read address s; s = s\<lparr>A := v\<rparr>
      in UpdateZeroAndNegativeFlags (A s) s)"

definition LDX :: "Address \<Rightarrow> machine \<Rightarrow> machine" where
  "LDX address s =
     (let (v, s) = mem_read address s; s = s\<lparr>X := v\<rparr>
      in UpdateZeroAndNegativeFlags (X s) s)"

definition LDY :: "Address \<Rightarrow> machine \<Rightarrow> machine" where
  "LDY address s =
     (let (v, s) = mem_read address s; s = s\<lparr>Y := v\<rparr>
      in UpdateZeroAndNegativeFlags (Y s) s)"

definition STA :: "Address \<Rightarrow> machine \<Rightarrow> machine" where
  "STA address s = mem_write address (A s) s"

definition STX :: "Address \<Rightarrow> machine \<Rightarrow> machine" where
  "STX address s = mem_write address (X s) s"

definition STY :: "Address \<Rightarrow> machine \<Rightarrow> machine" where
  "STY address s = mem_write address (Y s) s"

subsection \<open>Register transfers\<close>

definition TAX :: "machine \<Rightarrow> machine" where
  "TAX s = (let s = s\<lparr>X := A s\<rparr>; s = s\<lparr>cycles := cycles s + 1\<rparr>
            in UpdateZeroAndNegativeFlags (X s) s)"

definition TAY :: "machine \<Rightarrow> machine" where
  "TAY s = (let s = s\<lparr>Y := A s\<rparr>; s = s\<lparr>cycles := cycles s + 1\<rparr>
            in UpdateZeroAndNegativeFlags (Y s) s)"

definition TXA :: "machine \<Rightarrow> machine" where
  "TXA s = (let s = s\<lparr>A := X s\<rparr>; s = s\<lparr>cycles := cycles s + 1\<rparr>
            in UpdateZeroAndNegativeFlags (A s) s)"

definition TYA :: "machine \<Rightarrow> machine" where
  "TYA s = (let s = s\<lparr>A := Y s\<rparr>; s = s\<lparr>cycles := cycles s + 1\<rparr>
            in UpdateZeroAndNegativeFlags (A s) s)"

definition TSX :: "machine \<Rightarrow> machine" where
  "TSX s = (let s = s\<lparr>X := SP s\<rparr>; s = s\<lparr>cycles := cycles s + 1\<rparr>
            in UpdateZeroAndNegativeFlags (X s) s)"

definition TXS :: "machine \<Rightarrow> machine" where
  "TXS s = (let s = s\<lparr>SP := X s\<rparr> in s\<lparr>cycles := cycles s + 1\<rparr>)"

subsection \<open>Stack instructions\<close>

definition PHA :: "machine \<Rightarrow> machine" where
  "PHA s = (let s = s\<lparr>cycles := cycles s + 1\<rparr> in PushByteToStack (A s) s)"

definition PHP :: "machine \<Rightarrow> machine" where
  "PHP s =
     (let s = s\<lparr>cycles := cycles s + 1\<rparr>;
          statusToStore = P s OR FLAG_BREAK OR FLAG_UNUSED
      in PushByteToStack statusToStore s)"

definition PLA :: "machine \<Rightarrow> machine" where
  "PLA s =
     (let s = s\<lparr>cycles := cycles s + 2\<rparr>;
          (v, s) = PopByteFromStack s;
          s = s\<lparr>A := v\<rparr>
      in UpdateZeroAndNegativeFlags (A s) s)"

definition PLP :: "machine \<Rightarrow> machine" where
  "PLP s =
     (let s = s\<lparr>cycles := cycles s + 2\<rparr>;
          (v, s) = PopByteFromStack s;
          s = s\<lparr>P := v\<rparr>
      in SetFlag FLAG_UNUSED True s)"

subsection \<open>Logical instructions\<close>

definition AND_A :: "Address \<Rightarrow> machine \<Rightarrow> machine" where
  "AND_A address s =
     (let (v, s) = mem_read address s; s = s\<lparr>A := A s AND v\<rparr>
      in UpdateZeroAndNegativeFlags (A s) s)"

definition ORA :: "Address \<Rightarrow> machine \<Rightarrow> machine" where
  "ORA address s =
     (let (v, s) = mem_read address s; s = s\<lparr>A := A s OR v\<rparr>
      in UpdateZeroAndNegativeFlags (A s) s)"

definition EOR :: "Address \<Rightarrow> machine \<Rightarrow> machine" where
  "EOR address s =
     (let (v, s) = mem_read address s; s = s\<lparr>A := A s XOR v\<rparr>
      in UpdateZeroAndNegativeFlags (A s) s)"

definition BIT :: "Address \<Rightarrow> machine \<Rightarrow> machine" where
  "BIT address s =
     (let (v, s) = mem_read address s;
          s = SetFlag FLAG_ZERO (A s AND v = 0) s;
          s = SetFlag FLAG_NEGATIVE (v AND 0x80 \<noteq> 0) s
      in SetFlag FLAG_OVERFLOW (v AND 0x40 \<noteq> 0) s)"

subsection \<open>Arithmetic\<close>

text \<open>
  The sums and differences of \<open>ADC\<close>, \<open>SBC\<close> and \<open>CompareRegister\<close> are computed
  in \<open>int\<close> and stored in a 16-bit \<open>Word\<close>. Cutting to 16 bits commutes with
  \<open>+\<close>, \<open>-\<close>, \<open>&\<close>, \<open>|\<close> and \<open>^\<close>, the only operations applied, so the model
  computes in 16-bit words from the start (a negative \<open>int\<close> is the word it is stored
  as).
\<close>

definition ADC :: "Address \<Rightarrow> machine \<Rightarrow> machine" where
  "ADC address s =
     (let (operand, s) = mem_read address s
      in if GetFlag FLAG_DECIMAL s
         then
           (let sum = ucast (A s AND 0x0F) + ucast (operand AND 0x0F)
                        + (if GetFlag FLAG_CARRY s then 1 else 0) :: Word;
                sum = (if sum > 0x09 then sum + 0x06 else sum);
                sum = ucast (A s AND 0xF0) + ucast (operand AND 0xF0)
                        + (if sum > 0x0F then 0x10 else 0) + (sum AND 0x0F);
                s = SetFlag FLAG_NEGATIVE (sum AND 0x80 \<noteq> 0) s;
                s = SetFlag FLAG_ZERO (sum AND 0xFF = 0) s;
                overflow = ((ucast (A s) XOR sum) AND (ucast operand XOR sum) AND 0x80 \<noteq> 0);
                s = SetFlag FLAG_OVERFLOW overflow s;
                sum = (if (sum AND 0xF0) > 0x90 then sum + 0x60 else sum);
                s = SetFlag FLAG_CARRY (sum > 0x99) s
            in s\<lparr>A := ucast (sum AND 0xFF)\<rparr>)
         else
           (let sum = ucast (A s) + ucast operand
                        + (if GetFlag FLAG_CARRY s then 1 else 0) :: Word;
                s = SetFlag FLAG_CARRY (sum > 0xFF) s;
                overflow = ((ucast (A s) XOR sum) AND (ucast operand XOR sum) AND 0x80 \<noteq> 0);
                s = SetFlag FLAG_OVERFLOW overflow s;
                s = s\<lparr>A := ucast (sum AND 0xFF)\<rparr>
            in UpdateZeroAndNegativeFlags (A s) s))"

definition SBC :: "Address \<Rightarrow> machine \<Rightarrow> machine" where
  "SBC address s =
     (let (operand, s) = mem_read address s
      in if GetFlag FLAG_DECIMAL s
         then
           (let diff = ucast (A s AND 0x0F) - ucast (operand AND 0x0F)
                         - (if GetFlag FLAG_CARRY s then 0 else 1) :: Word;
                diff = (if diff AND 0x10 \<noteq> 0
                        then ((diff - 0x06) AND 0x0F)
                               OR (ucast (A s AND 0xF0) - ucast (operand AND 0xF0) - 0x10)
                        else (diff AND 0x0F)
                               OR (ucast (A s AND 0xF0) - ucast (operand AND 0xF0)));
                diff = (if diff AND 0x100 \<noteq> 0 then diff - 0x60 else diff);
                s = SetFlag FLAG_CARRY (diff AND 0x100 = 0) s;
                s = s\<lparr>A := ucast (diff AND 0xFF)\<rparr>
            in UpdateZeroAndNegativeFlags (A s) s)
         else
           (let sum = ucast (A s) + ucast (operand XOR 0xFF)
                        + (if GetFlag FLAG_CARRY s then 1 else 0) :: Word;
                s = SetFlag FLAG_CARRY (sum > 0xFF) s;
                overflow = ((ucast (A s) XOR sum) AND (ucast (operand XOR 0xFF) XOR sum)
                              AND 0x80 \<noteq> 0);
                s = SetFlag FLAG_OVERFLOW overflow s;
                s = s\<lparr>A := ucast (sum AND 0xFF)\<rparr>
            in UpdateZeroAndNegativeFlags (A s) s))"

definition CompareRegister :: "Byte \<Rightarrow> Byte \<Rightarrow> machine \<Rightarrow> machine" where
  "CompareRegister regValue memValue s =
     (let result = ucast regValue - ucast memValue :: Word;
          s = SetFlag FLAG_CARRY (regValue \<ge> memValue) s;
          s = SetFlag FLAG_ZERO (regValue = memValue) s
      in SetFlag FLAG_NEGATIVE (result AND 0x80 \<noteq> 0) s)"

definition CMP :: "Address \<Rightarrow> machine \<Rightarrow> machine" where
  "CMP address s = (let (v, s) = mem_read address s in CompareRegister (A s) v s)"

definition CPX :: "Address \<Rightarrow> machine \<Rightarrow> machine" where
  "CPX address s = (let (v, s) = mem_read address s in CompareRegister (X s) v s)"

definition CPY :: "Address \<Rightarrow> machine \<Rightarrow> machine" where
  "CPY address s = (let (v, s) = mem_read address s in CompareRegister (Y s) v s)"

subsection \<open>Increment and decrement\<close>

definition INC :: "Address \<Rightarrow> machine \<Rightarrow> machine" where
  "INC address s =
     (let (v, s) = mem_read address s;
          v = v + 1;
          s = s\<lparr>cycles := cycles s + 1\<rparr>;
          s = mem_write address v s
      in UpdateZeroAndNegativeFlags v s)"

definition INX :: "machine \<Rightarrow> machine" where
  "INX s = (let s = s\<lparr>X := X s + 1\<rparr>; s = s\<lparr>cycles := cycles s + 1\<rparr>
            in UpdateZeroAndNegativeFlags (X s) s)"

definition INY :: "machine \<Rightarrow> machine" where
  "INY s = (let s = s\<lparr>Y := Y s + 1\<rparr>; s = s\<lparr>cycles := cycles s + 1\<rparr>
            in UpdateZeroAndNegativeFlags (Y s) s)"

definition DEC :: "Address \<Rightarrow> machine \<Rightarrow> machine" where
  "DEC address s =
     (let (v, s) = mem_read address s;
          v = v - 1;
          s = s\<lparr>cycles := cycles s + 1\<rparr>;
          s = mem_write address v s
      in UpdateZeroAndNegativeFlags v s)"

definition DEX :: "machine \<Rightarrow> machine" where
  "DEX s = (let s = s\<lparr>X := X s - 1\<rparr>; s = s\<lparr>cycles := cycles s + 1\<rparr>
            in UpdateZeroAndNegativeFlags (X s) s)"

definition DEY :: "machine \<Rightarrow> machine" where
  "DEY s = (let s = s\<lparr>Y := Y s - 1\<rparr>; s = s\<lparr>cycles := cycles s + 1\<rparr>
            in UpdateZeroAndNegativeFlags (Y s) s)"

section \<open>Instructions.cpp\<close>

subsection \<open>Shifts and rotates\<close>

definition ASL_ACC :: "machine \<Rightarrow> machine" where
  "ASL_ACC s =
     (let s = SetFlag FLAG_CARRY (A s AND 0x80 \<noteq> 0) s;
          s = s\<lparr>A := push_bit 1 (A s)\<rparr>;
          s = s\<lparr>cycles := cycles s + 1\<rparr>
      in UpdateZeroAndNegativeFlags (A s) s)"

definition ASL_MEM :: "Address \<Rightarrow> machine \<Rightarrow> machine" where
  "ASL_MEM address s =
     (let (v, s) = mem_read address s;
          s = SetFlag FLAG_CARRY (v AND 0x80 \<noteq> 0) s;
          v = push_bit 1 v;
          s = s\<lparr>cycles := cycles s + 1\<rparr>;
          s = mem_write address v s
      in UpdateZeroAndNegativeFlags v s)"

definition LSR_ACC :: "machine \<Rightarrow> machine" where
  "LSR_ACC s =
     (let s = SetFlag FLAG_CARRY (A s AND 0x01 \<noteq> 0) s;
          s = s\<lparr>A := drop_bit 1 (A s)\<rparr>;
          s = s\<lparr>cycles := cycles s + 1\<rparr>
      in UpdateZeroAndNegativeFlags (A s) s)"

definition LSR_MEM :: "Address \<Rightarrow> machine \<Rightarrow> machine" where
  "LSR_MEM address s =
     (let (v, s) = mem_read address s;
          s = SetFlag FLAG_CARRY (v AND 0x01 \<noteq> 0) s;
          v = drop_bit 1 v;
          s = s\<lparr>cycles := cycles s + 1\<rparr>;
          s = mem_write address v s
      in UpdateZeroAndNegativeFlags v s)"

definition ROL_ACC :: "machine \<Rightarrow> machine" where
  "ROL_ACC s =
     (let oldCarry = GetFlag FLAG_CARRY s;
          s = SetFlag FLAG_CARRY (A s AND 0x80 \<noteq> 0) s;
          s = s\<lparr>A := push_bit 1 (A s) OR (if oldCarry then 1 else 0)\<rparr>;
          s = s\<lparr>cycles := cycles s + 1\<rparr>
      in UpdateZeroAndNegativeFlags (A s) s)"

definition ROL_MEM :: "Address \<Rightarrow> machine \<Rightarrow> machine" where
  "ROL_MEM address s =
     (let (v, s) = mem_read address s;
          oldCarry = GetFlag FLAG_CARRY s;
          s = SetFlag FLAG_CARRY (v AND 0x80 \<noteq> 0) s;
          v = push_bit 1 v OR (if oldCarry then 1 else 0);
          s = s\<lparr>cycles := cycles s + 1\<rparr>;
          s = mem_write address v s
      in UpdateZeroAndNegativeFlags v s)"

definition ROR_ACC :: "machine \<Rightarrow> machine" where
  "ROR_ACC s =
     (let oldCarry = GetFlag FLAG_CARRY s;
          s = SetFlag FLAG_CARRY (A s AND 0x01 \<noteq> 0) s;
          s = s\<lparr>A := drop_bit 1 (A s) OR (if oldCarry then 0x80 else 0)\<rparr>;
          s = s\<lparr>cycles := cycles s + 1\<rparr>
      in UpdateZeroAndNegativeFlags (A s) s)"

definition ROR_MEM :: "Address \<Rightarrow> machine \<Rightarrow> machine" where
  "ROR_MEM address s =
     (let (v, s) = mem_read address s;
          oldCarry = GetFlag FLAG_CARRY s;
          s = SetFlag FLAG_CARRY (v AND 0x01 \<noteq> 0) s;
          v = drop_bit 1 v OR (if oldCarry then 0x80 else 0);
          s = s\<lparr>cycles := cycles s + 1\<rparr>;
          s = mem_write address v s
      in UpdateZeroAndNegativeFlags v s)"

subsection \<open>Jumps, calls and branches\<close>

definition JMP :: "Word \<Rightarrow> machine \<Rightarrow> machine" where
  "JMP address s = s\<lparr>PC := address\<rparr>"

definition JSR :: "Address \<Rightarrow> machine \<Rightarrow> machine" where
  "JSR address s =
     (let s = s\<lparr>cycles := cycles s + 1\<rparr>;
          returnAddress = PC s - 1;
          s = PushWordToStack returnAddress s
      in s\<lparr>PC := address\<rparr>)"

definition RTS :: "machine \<Rightarrow> machine" where
  "RTS s =
     (let s = s\<lparr>cycles := cycles s + 2\<rparr>;
          (returnAddress, s) = PopWordFromStack s;
          s = s\<lparr>PC := returnAddress + 1\<rparr>
      in s\<lparr>cycles := cycles s + 1\<rparr>)"

definition RTI :: "machine \<Rightarrow> machine" where
  "RTI s =
     (let s = s\<lparr>cycles := cycles s + 1\<rparr>;
          (v, s) = PopByteFromStack s;
          s = s\<lparr>P := v\<rparr>;
          s = SetFlag FLAG_UNUSED True s;
          (w, s) = PopWordFromStack s
      in s\<lparr>PC := w\<rparr>)"

text \<open>The offset byte is read as a signed byte; \<open>PC += offset\<close> adds its value as an
  \<open>int\<close> and cuts the sum to 16 bits, which is the sum of \<open>PC\<close> and the sign extension
  of the byte.\<close>

definition BranchIf :: "bool \<Rightarrow> machine \<Rightarrow> machine" where
  "BranchIf condition s =
     (let (offset, s) = FetchByte s
      in if condition
         then
           (let s = s\<lparr>cycles := cycles s + 1\<rparr>;
                oldPC = PC s;
                s = s\<lparr>PC := PC s + scast offset\<rparr>
            in if oldPC AND 0xFF00 \<noteq> PC s AND 0xFF00
               then s\<lparr>cycles := cycles s + 1\<rparr> else s)
         else s)"

subsection \<open>Flag instructions\<close>

definition CLC :: "machine \<Rightarrow> machine" where
  "CLC s = (let s = SetFlag FLAG_CARRY False s in s\<lparr>cycles := cycles s + 1\<rparr>)"

definition CLD :: "machine \<Rightarrow> machine" where
  "CLD s = (let s = SetFlag FLAG_DECIMAL False s in s\<lparr>cycles := cycles s + 1\<rparr>)"

definition CLI :: "machine \<Rightarrow> machine" where
  "CLI s = (let s = SetFlag FLAG_INTERRUPT False s in s\<lparr>cycles := cycles s + 1\<rparr>)"

definition CLV :: "machine \<Rightarrow> machine" where
  "CLV s = (let s = SetFlag FLAG_OVERFLOW False s in s\<lparr>cycles := cycles s + 1\<rparr>)"

definition SEC :: "machine \<Rightarrow> machine" where
  "SEC s = (let s = SetFlag FLAG_CARRY True s in s\<lparr>cycles := cycles s + 1\<rparr>)"

definition SED :: "machine \<Rightarrow> machine" where
  "SED s = (let s = SetFlag FLAG_DECIMAL True s in s\<lparr>cycles := cycles s + 1\<rparr>)"

definition SEI :: "machine \<Rightarrow> machine" where
  "SEI s = (let s = SetFlag FLAG_INTERRUPT True s in s\<lparr>cycles := cycles s + 1\<rparr>)"

subsection \<open>System instructions\<close>

definition BRK :: "machine \<Rightarrow> machine" where
  "BRK s =
     (let s = s\<lparr>PC := PC s + 1\<rparr>;
          s = s\<lparr>cycles := cycles s + 1\<rparr>;
          s = PushWordToStack (PC s) s;
          statusToStore = P s OR FLAG_BREAK OR FLAG_UNUSED;
          s = PushByteToStack statusToStore s;
          s = SetFlag FLAG_INTERRUPT True s;
          (v, s) = mem_read_word VECTOR_IRQ_BRK s
      in s\<lparr>PC := v\<rparr>)"

definition NOP :: "machine \<Rightarrow> machine" where
  "NOP s = s\<lparr>cycles := cycles s + 1\<rparr>"

section \<open>The instruction set\<close>

text \<open>Modelled from the spec: the opcode constants \<open>INS_*\<close> of the missing header. Every
  legal opcode is a named byte constant whose value is that of the NMOS 6502 instruction
  set (\<open>INS_LDA_IM = 0xA9\<close>); the names are those the dispatch of \<open>Execute\<close> uses.\<close>

definition INS_LDA_IM :: Byte where "INS_LDA_IM = 0xA9"
definition INS_LDA_ZP :: Byte where "INS_LDA_ZP = 0xA5"
definition INS_LDA_ZPX :: Byte where "INS_LDA_ZPX = 0xB5"
definition INS_LDA_ABS :: Byte where "INS_LDA_ABS = 0xAD"
definition INS_LDA_ABSX :: Byte where "INS_LDA_ABSX = 0xBD"
definition INS_LDA_ABSY :: Byte where "INS_LDA_ABSY = 0xB9"
definition INS_LDA_INDX :: Byte where "INS_LDA_INDX = 0xA1"
definition INS_LDA_INDY :: Byte where "INS_LDA_INDY = 0xB1"
definition INS_LDX_IM :: Byte where "INS_LDX_IM = 0xA2"
definition INS_LDX_ZP :: Byte where "INS_LDX_ZP = 0xA6"
definition INS_LDX_ZPY :: Byte where "INS_LDX_ZPY = 0xB6"
definition INS_LDX_ABS :: Byte where "INS_LDX_ABS = 0xAE"
definition INS_LDX_ABSY :: Byte where "INS_LDX_ABSY = 0xBE"
definition INS_LDY_IM :: Byte where "INS_LDY_IM = 0xA0"
definition INS_LDY_ZP :: Byte where "INS_LDY_ZP = 0xA4"
definition INS_LDY_ZPX :: Byte where "INS_LDY_ZPX = 0xB4"
definition INS_LDY_ABS :: Byte where "INS_LDY_ABS = 0xAC"
definition INS_LDY_ABSX :: Byte where "INS_LDY_ABSX = 0xBC"
definition INS_STA_ZP :: Byte where "INS_STA_ZP = 0x85"
definition INS_STA_ZPX :: Byte where "INS_STA_ZPX = 0x95"
definition INS_STA_ABS :: Byte where "INS_STA_ABS = 0x8D"
definition INS_STA_ABSX :: Byte where "INS_STA_ABSX = 0x9D"
definition INS_STA_ABSY :: Byte where "INS_STA_ABSY = 0x99"
definition INS_STA_INDX :: Byte where "INS_STA_INDX = 0x81"
definition INS_STA_INDY :: Byte where "INS_STA_INDY = 0x91"
definition INS_STX_ZP :: Byte where "INS_STX_ZP = 0x86"
definition INS_STX_ZPY :: Byte where "INS_STX_ZPY = 0x96"
definition INS_STX_ABS :: Byte where "INS_STX_ABS = 0x8E"
definition INS_STY_ZP :: Byte where "INS_STY_ZP = 0x84"
definition INS_STY_ZPX :: Byte where "INS_STY_ZPX = 0x94"
definition INS_STY_ABS :: Byte where "INS_STY_ABS = 0x8C"
definition INS_TAX :: Byte where "INS_TAX = 0xAA"
definition INS_TAY :: Byte where "INS_TAY = 0xA8"
definition INS_TXA :: Byte where "INS_TXA = 0x8A"
definition INS_TYA :: Byte where "INS_TYA = 0x98"
definition INS_TSX :: Byte where "INS_TSX = 0xBA"
definition INS_TXS :: Byte where "INS_TXS = 0x9A"
definition INS_PHA :: Byte where "INS_PHA = 0x48"
definition INS_PHP :: Byte where "INS_PHP = 0x08"
definition INS_PLA :: Byte where "INS_PLA = 0x68"
definition INS_PLP :: Byte where "INS_PLP = 0x28"
definition INS_AND_IM :: Byte where "INS_AND_IM = 0x29"
definition INS_AND_ZP :: Byte where "INS_AND_ZP = 0x25"
definition INS_AND_ZPX :: Byte where "INS_AND_ZPX = 0x35"
definition INS_AND_ABS :: Byte where "INS_AND_ABS = 0x2D"
definition INS_AND_ABSX :: Byte where "INS_AND_ABSX = 0x3D"
definition INS_AND_ABSY :: Byte where "INS_AND_ABSY = 0x39"
definition INS_AND_INDX :: Byte where "INS_AND_INDX = 0x21"
definition INS_AND_INDY :: Byte where "INS_AND_INDY = 0x31"
definition INS_ORA_IM :: Byte where "INS_ORA_IM = 0x09"
definition INS_ORA_ZP :: Byte where "INS_ORA_ZP = 0x05"
definition INS_ORA_ZPX :: Byte where "INS_ORA_ZPX = 0x15"
definition INS_ORA_ABS :: Byte where "INS_ORA_ABS = 0x0D"
definition INS_ORA_ABSX :: Byte where "INS_ORA_ABSX = 0x1D"
definition INS_ORA_ABSY :: Byte where "INS_ORA_ABSY = 0x19"
definition INS_ORA_INDX :: Byte where "INS_ORA_INDX = 0x01"
definition INS_ORA_INDY :: Byte where "INS_ORA_INDY = 0x11"
definition INS_EOR_IM :: Byte where "INS_EOR_IM = 0x49"
definition INS_EOR_ZP :: Byte where "INS_EOR_ZP = 0x45"
definition INS_EOR_ZPX :: Byte where "INS_EOR_ZPX = 0x55"
definition INS_EOR_ABS :: Byte where "INS_EOR_ABS = 0x4D"
definition INS_EOR_ABSX :: Byte where "INS_EOR_ABSX = 0x5D"
definition INS_EOR_ABSY :: Byte where "INS_EOR_ABSY = 0x59"
definition INS_EOR_INDX :: Byte where "INS_EOR_INDX = 0x41"
definition INS_EOR_INDY :: Byte where "INS_EOR_INDY = 0x51"
definition INS_BIT_ZP :: Byte where "INS_BIT_ZP = 0x24"
definition INS_BIT_ABS :: Byte where "INS_BIT_ABS = 0x2C"
definition INS_ADC_IM :: Byte where "INS_ADC_IM = 0x69"
definition INS_ADC_ZP :: Byte where "INS_ADC_ZP = 0x65"
definition INS_ADC_ZPX :: Byte where "INS_ADC_ZPX = 0x75"
definition INS_ADC_ABS :: Byte where "INS_ADC_ABS = 0x6D"
definition INS_ADC_ABSX :: Byte where "INS_ADC_ABSX = 0x7D"
definition INS_ADC_ABSY :: Byte where "INS_ADC_ABSY = 0x79"
definition INS_ADC_INDX :: Byte where "INS_ADC_INDX = 0x61"
definition INS_ADC_INDY :: Byte where "INS_ADC_INDY = 0x71"
definition INS_SBC_IM :: Byte where "INS_SBC_IM = 0xE9"
definition INS_SBC_ZP :: Byte where "INS_SBC_ZP = 0xE5"
definition INS_SBC_ZPX :: Byte where "INS_SBC_ZPX = 0xF5"
definition INS_SBC_ABS :: Byte where "INS_SBC_ABS = 0xED"
definition INS_SBC_ABSX :: Byte where "INS_SBC_ABSX = 0xFD"
definition INS_SBC_ABSY :: Byte where "INS_SBC_ABSY = 0xF9"
definition INS_SBC_INDX :: Byte where "INS_SBC_INDX = 0xE1"
definition INS_SBC_INDY :: Byte where "INS_SBC_INDY = 0xF1"
definition INS_CMP_IM :: Byte where "INS_CMP_IM = 0xC9"
definition INS_CMP_ZP :: Byte where "INS_CMP_ZP = 0xC5"
definition INS_CMP_ZPX :: Byte where "INS_CMP_ZPX = 0xD5"
definition INS_CMP_ABS :: Byte where "INS_CMP_ABS = 0xCD"
definition INS_CMP_ABSX :: Byte where "INS_CMP_ABSX = 0xDD"
definition INS_CMP_ABSY :: Byte where "INS_CMP_ABSY = 0xD9"
definition INS_CMP_INDX :: Byte where "INS_CMP_INDX = 0xC1"
definition INS_CMP_INDY :: Byte where "INS_CMP_INDY = 0xD1"
definition INS_CPX_IM :: Byte where "INS_CPX_IM = 0xE0"
definition INS_CPX_ZP :: Byte where "INS_CPX_ZP = 0xE4"
definition INS_CPX_ABS :: Byte where "INS_CPX_ABS = 0xEC"
definition INS_CPY_IM :: Byte where "INS_CPY_IM = 0xC0"
definition INS_CPY_ZP :: Byte where "INS_CPY_ZP = 0xC4"
definition INS_CPY_ABS :: Byte where "INS_CPY_ABS = 0xCC"
definition INS_INC_ZP :: Byte where "INS_INC_ZP = 0xE6"
definition INS_INC_ZPX :: Byte where "INS_INC_ZPX = 0xF6"
definition INS_INC_ABS :: Byte where "INS_INC_ABS = 0xEE"
definition INS_INC_ABSX :: Byte where "INS_INC_ABSX = 0xFE"
definition INS_INX :: Byte where "INS_INX = 0xE8"
definition INS_INY :: Byte where "INS_INY = 0xC8"
definition INS_DEC_ZP :: Byte where "INS_DEC_ZP = 0xC6"
definition INS_DEC_ZPX :: Byte where "INS_DEC_ZPX = 0xD6"
definition INS_DEC_ABS :: Byte where "INS_DEC_ABS = 0xCE"
definition INS_DEC_ABSX :: Byte where "INS_DEC_ABSX = 0xDE"
definition INS_DEX :: Byte where "INS_DEX = 0xCA"
definition INS_DEY :: Byte where "INS_DEY = 0x88"
definition INS_ASL_ACC :: Byte where "INS_ASL_ACC = 0x0A"
definition INS_ASL_ZP :: Byte where "INS_ASL_ZP = 0x06"
definition INS_ASL_ZPX :: Byte where "INS_ASL_ZPX = 0x16"
definition INS_ASL_ABS :: Byte where "INS_ASL_ABS = 0x0E"
definition INS_ASL_ABSX :: Byte where "INS_ASL_ABSX = 0x1E"
definition INS_LSR_ACC :: Byte where "INS_LSR_ACC = 0x4A"
definition INS_LSR_ZP :: Byte where "INS_LSR_ZP = 0x46"
definition INS_LSR_ZPX :: Byte where "INS_LSR_ZPX = 0x56"
definition INS_LSR_ABS :: Byte where "INS_LSR_ABS = 0x4E"
definition INS_LSR_ABSX :: Byte where "INS_LSR_ABSX = 0x5E"
definition INS_ROL_ACC :: Byte where "INS_ROL_ACC = 0x2A"
definition INS_ROL_ZP :: Byte where "INS_ROL_ZP = 0x26"
definition INS_ROL_ZPX :: Byte where "INS_ROL_ZPX = 0x36"
definition INS_ROL_ABS :: Byte where "INS_ROL_ABS = 0x2E"
definition INS_ROL_ABSX :: Byte where "INS_ROL_ABSX = 0x3E"
definition INS_ROR_ACC :: Byte where "INS_ROR_ACC = 0x6A"
definition INS_ROR_ZP :: Byte where "INS_ROR_ZP = 0x66"
definition INS_ROR_ZPX :: Byte where "INS_ROR_ZPX = 0x76"
definition INS_ROR_ABS :: Byte where "INS_ROR_ABS = 0x6E"
definition INS_ROR_ABSX :: Byte where "INS_ROR_ABSX = 0x7E"
definition INS_JMP_ABS :: Byte where "INS_JMP_ABS = 0x4C"
definition INS_JMP_IND :: Byte where "INS_JMP_IND = 0x6C"
definition INS_JSR :: Byte where "INS_JSR = 0x20"
definition INS_RTS :: Byte where "INS_RTS = 0x60"
definition INS_RTI :: Byte where "INS_RTI = 0x40"
definition INS_BCC :: Byte where "INS_BCC = 0x90"
definition INS_BCS :: Byte where "INS_BCS = 0xB0"
definition INS_BEQ :: Byte where "INS_BEQ = 0xF0"
definition INS_BMI :: Byte where "INS_BMI = 0x30"
definition INS_BNE :: Byte where "INS_BNE = 0xD0"
definition INS_BPL :: Byte where "INS_BPL = 0x10"
definition INS_BVC :: Byte where "INS_BVC = 0x50"
definition INS_BVS :: Byte where "INS_BVS = 0x70"
definition INS_CLC :: Byte where "INS_CLC = 0x18"
definition INS_CLD :: Byte where "INS_CLD = 0xD8"
definition INS_CLI :: Byte where "INS_CLI = 0x58"
definition INS_CLV :: Byte where "INS_CLV = 0xB8"
definition INS_SEC :: Byte where "INS_SEC = 0x38"
definition INS_SED :: Byte where "INS_SED = 0xF8"
definition INS_SEI :: Byte where "INS_SEI = 0x78"
definition INS_BRK :: Byte where "INS_BRK = 0x00"
definition INS_NOP :: Byte where "INS_NOP = 0xEA"

text \<open>The opcodes in the order of the cases of the dispatch.\<close>

definition legal_opcodes :: "Byte list" where
  "legal_opcodes =
     [INS_LDA_IM, INS_LDA_ZP, INS_LDA_ZPX, INS_LDA_ABS, INS_LDA_ABSX, INS_LDA_ABSY,
      INS_LDA_INDX, INS_LDA_INDY, INS_LDX_IM, INS_LDX_ZP, INS_LDX_ZPY, INS_LDX_ABS,
      INS_LDX_ABSY, INS_LDY_IM, INS_LDY_ZP, INS_LDY_ZPX, INS_LDY_ABS, INS_LDY_ABSX,
      INS_STA_ZP, INS_STA_ZPX, INS_STA_ABS, INS_STA_ABSX, INS_STA_ABSY, INS_STA_INDX,
      INS_STA_INDY, INS_STX_ZP, INS_STX_ZPY, INS_STX_ABS, INS_STY_ZP, INS_STY_ZPX,
      INS_STY_ABS, INS_TAX, INS_TAY, INS_TXA, INS_TYA, INS_TSX, INS_TXS, INS_PHA, INS_PHP,
      INS_PLA, INS_PLP, INS_AND_IM, INS_AND_ZP, INS_AND_ZPX, INS_AND_ABS, INS_AND_ABSX,
      INS_AND_ABSY, INS_AND_INDX, INS_AND_INDY, INS_ORA_IM, INS_ORA_ZP, INS_ORA_ZPX,
      INS_ORA_ABS, INS_ORA_ABSX, INS_ORA_ABSY, INS_ORA_INDX, INS_ORA_INDY, INS_EOR_IM,
      INS_EOR_ZP, INS_EOR_ZPX, INS_EOR_ABS, INS_EOR_ABSX, INS_EOR_ABSY, INS_EOR_INDX,
      INS_EOR_INDY, INS_BIT_ZP, INS_BIT_ABS, INS_ADC_IM, INS_ADC_ZP, INS_ADC_ZPX, INS_ADC_ABS,
      INS_ADC_ABSX, INS_ADC_ABSY, INS_ADC_INDX, INS_ADC_INDY, INS_SBC_IM, INS_SBC_ZP,
      INS_SBC_ZPX, INS_SBC_ABS, INS_SBC_ABSX, INS_SBC_ABSY, INS_SBC_INDX, INS_SBC_INDY,
      INS_CMP_IM, INS_CMP_ZP, INS_CMP_ZPX, INS_CMP_ABS, INS_CMP_ABSX, INS_CMP_ABSY,
      INS_CMP_INDX, INS_CMP_INDY, INS_CPX_IM, INS_CPX_ZP, INS_CPX_ABS, INS_CPY_IM, INS_CPY_ZP,
      INS_CPY_ABS, INS_INC_ZP, INS_INC_ZPX, INS_INC_ABS, INS_INC_ABSX, INS_INX, INS_INY,
      INS_DEC_ZP, INS_DEC_ZPX, INS_DEC_ABS, INS_DEC_ABSX, INS_DEX, INS_DEY, INS_ASL_ACC,
      INS_ASL_ZP, INS_ASL_ZPX, INS_ASL_ABS, INS_ASL_ABSX, INS_LSR_ACC, INS_LSR_ZP,
      INS_LSR_ZPX, INS_LSR_ABS, INS_LSR_ABSX, INS_ROL_ACC, INS_ROL_ZP, INS_ROL_ZPX,
      INS_ROL_ABS, INS_ROL_ABSX, INS_ROR_ACC, INS_ROR_ZP, INS_ROR_ZPX, INS_ROR_ABS,
      INS_ROR_ABSX, INS_JMP_ABS, INS_JMP_IND, INS_JSR, INS_RTS, INS_RTI, INS_BCC, INS_BCS,
      INS_BEQ, INS_BMI, INS_BNE, INS_BPL, INS_BVC, INS_BVS, INS_CLC, INS_CLD, INS_CLI,
      INS_CLV, INS_SEC, INS_SED, INS_SEI, INS_BRK, INS_NOP]"

section \<open>Executing instructions\<close>

text \<open>A case \<open>INS(memory, cyclesUsed, AddrMode(memory, cyclesUsed))\<close> of the dispatch: the
  addressing mode helper runs first, the instruction then works at the address it
  returned.\<close>

definition with_address ::
  "(machine \<Rightarrow> Address \<times> machine) \<Rightarrow> (Address \<Rightarrow> machine \<Rightarrow> machine) \<Rightarrow> machine \<Rightarrow> machine" where
  "with_address mode ins s = (let (address, s) = mode s in ins address s)"

text \<open>The case \<open>INS_JMP_IND\<close>, written in the dispatch itself.\<close>

definition JMP_indirect :: "machine \<Rightarrow> machine" where
  "JMP_indirect s =
     (let (indirectAddr, s) = FetchWord s
      in if indirectAddr AND 0x00FF = 0x00FF
         then
           (let (lowByte, s) = mem_read indirectAddr s;
                (highByte, s) = mem_read (indirectAddr AND 0xFF00) s;
                targetAddr = push_bit 8 (ucast highByte) OR ucast lowByte
            in JMP targetAddr s)
         else
           (let (targetAddr, s) = mem_read_word indirectAddr s
            in JMP targetAddr s))"

text \<open>The \<open>switch\<close> of \<open>Execute\<close>; its \<open>default\<close> case charges one tick.\<close>

definition dispatch :: "Byte \<Rightarrow> machine \<Rightarrow> machine" where
  "dispatch opcode s =
     (
      if opcode = INS_LDA_IM then with_address AddrImmediate LDA s
      else if opcode = INS_LDA_ZP then with_address AddrZeroPage LDA s
      else if opcode = INS_LDA_ZPX then with_address AddrZeroPageX LDA s
      else if opcode = INS_LDA_ABS then with_address AddrAbsolute LDA s
      else if opcode = INS_LDA_ABSX then with_address (AddrAbsoluteX addCycleOnPageCross_default) LDA s
      else if opcode = INS_LDA_ABSY then with_address (AddrAbsoluteY addCycleOnPageCross_default) LDA s
      else if opcode = INS_LDA_INDX then with_address AddrIndexedIndirect LDA s
      else if opcode = INS_LDA_INDY then with_address (AddrIndirectIndexed addCycleOnPageCross_default) LDA s
      else if opcode = INS_LDX_IM then with_address AddrImmediate LDX s
      else if opcode = INS_LDX_ZP then with_address AddrZeroPage LDX s
      else if opcode = INS_LDX_ZPY then with_address AddrZeroPageY LDX s
      else if opcode = INS_LDX_ABS then with_address AddrAbsolute LDX s
      else if opcode = INS_LDX_ABSY then with_address (AddrAbsoluteY addCycleOnPageCross_default) LDX s
      else if opcode = INS_LDY_IM then with_address AddrImmediate LDY s
      else if opcode = INS_LDY_ZP then with_address AddrZeroPage LDY s
      else if opcode = INS_LDY_ZPX then with_address AddrZeroPageX LDY s
      else if opcode = INS_LDY_ABS then with_address AddrAbsolute LDY s
      else if opcode = INS_LDY_ABSX then with_address (AddrAbsoluteX addCycleOnPageCross_default) LDY s
      else if opcode = INS_STA_ZP then with_address AddrZeroPage STA s
      else if opcode = INS_STA_ZPX then with_address AddrZeroPageX STA s
      else if opcode = INS_STA_ABS then with_address AddrAbsolute STA s
      else if opcode = INS_STA_ABSX then with_address (AddrAbsoluteX False) STA s
      else if opcode = INS_STA_ABSY then with_address (AddrAbsoluteY False) STA s
      else if opcode = INS_STA_INDX then with_address AddrIndexedIndirect STA s
      else if opcode = INS_STA_INDY then with_address (AddrIndirectIndexed False) STA s
      else if opcode = INS_STX_ZP then with_address AddrZeroPage STX s
      else if opcode = INS_STX_ZPY then with_address AddrZeroPageY STX s
      else if opcode = INS_STX_ABS then with_address AddrAbsolute STX s
      else if opcode = INS_STY_ZP then with_address AddrZeroPage STY s
      else if opcode = INS_STY_ZPX then with_address AddrZeroPageX STY s
      else if opcode = INS_STY_ABS then with_address AddrAbsolute STY s
      else if opcode = INS_TAX then TAX s
      else if opcode = INS_TAY then TAY s
      else if opcode = INS_TXA then TXA s
      else if opcode = INS_TYA then TYA s
      else if opcode = INS_TSX then TSX s
      else if opcode = INS_TXS then TXS s
      else if opcode = INS_PHA then PHA s
      else if opcode = INS_PHP then PHP s
      else if opcode = INS_PLA then PLA s
      else if opcode = INS_PLP then PLP s
      else if opcode = INS_AND_IM then with_address AddrImmediate AND_A s
      else if opcode = INS_AND_ZP then with_address AddrZeroPage AND_A s
      else if opcode = INS_AND_ZPX then with_address AddrZeroPageX AND_A s
      else if opcode = INS_AND_ABS then with_address AddrAbsolute AND_A s
      else if opcode = INS_AND_ABSX then with_address (AddrAbsoluteX addCycleOnPageCross_default) AND_A s
      else if opcode = INS_AND_ABSY then with_address (AddrAbsoluteY addCycleOnPageCross_default) AND_A s
      else if opcode = INS_AND_INDX then with_address AddrIndexedIndirect AND_A s
      else if opcode = INS_AND_INDY then with_address (AddrIndirectIndexed addCycleOnPageCross_default) AND_A s
      else if opcode = INS_ORA_IM then with_address AddrImmediate ORA s
      else if opcode = INS_ORA_ZP then with_address AddrZeroPage ORA s
      else if opcode = INS_ORA_ZPX then with_address AddrZeroPageX ORA s
      else if opcode = INS_ORA_ABS then with_address AddrAbsolute ORA s
      else if opcode = INS_ORA_ABSX then with_address (AddrAbsoluteX addCycleOnPageCross_default) ORA s
      else if opcode = INS_ORA_ABSY then with_address (AddrAbsoluteY addCycleOnPageCross_default) ORA s
      else if opcode = INS_ORA_INDX then with_address AddrIndexedIndirect ORA s
      else if opcode = INS_ORA_INDY then with_address (AddrIndirectIndexed addCycleOnPageCross_default) ORA s
      else if opcode = INS_EOR_IM then with_address AddrImmediate EOR s
      else if opcode = INS_EOR_ZP then with_address AddrZeroPage EOR s
      else if opcode = INS_EOR_ZPX then with_address AddrZeroPageX EOR s
      else if opcode = INS_EOR_ABS then with_address AddrAbsolute EOR s
      else if opcode = INS_EOR_ABSX then with_address (AddrAbsoluteX addCycleOnPageCross_default) EOR s
      else if opcode = INS_EOR_ABSY then with_address (AddrAbsoluteY addCycleOnPageCross_default) EOR s
      else if opcode = INS_EOR_INDX then with_address AddrIndexedIndirect EOR s
      else if opcode = INS_EOR_INDY then with_address (AddrIndirectIndexed addCycleOnPageCross_default) EOR s
      else if opcode = INS_BIT_ZP then with_address AddrZeroPage BIT s
      else if opcode = INS_BIT_ABS then with_address AddrAbsolute BIT s
      else if opcode = INS_ADC_IM then with_address AddrImmediate ADC s
      else if opcode = INS_ADC_ZP then with_address AddrZeroPage ADC s
      else if opcode = INS_ADC_ZPX then with_address AddrZeroPageX ADC s
      else if opcode = INS_ADC_ABS then with_address AddrAbsolute ADC s
      else if opcode = INS_ADC_ABSX then with_address (AddrAbsoluteX addCycleOnPageCross_default) ADC s
      else if opcode = INS_ADC_ABSY then with_address (AddrAbsoluteY addCycleOnPageCross_default) ADC s
      else if opcode = INS_ADC_INDX then with_address AddrIndexedIndirect ADC s
      else if opcode = INS_ADC_INDY then with_address (AddrIndirectIndexed addCycleOnPageCross_default) ADC s
      else if opcode = INS_SBC_IM then with_address AddrImmediate SBC s
      else if opcode = INS_SBC_ZP then with_address AddrZeroPage SBC s
      else if opcode = INS_SBC_ZPX then with_address AddrZeroPageX SBC s
      else if opcode = INS_SBC_ABS then with_address AddrAbsolute SBC s
      else if opcode = INS_SBC_ABSX then with_address (AddrAbsoluteX addCycleOnPageCross_default) SBC s
      else if opcode = INS_SBC_ABSY then with_address (AddrAbsoluteY addCycleOnPageCross_default) SBC s
      else if opcode = INS_SBC_INDX then with_address AddrIndexedIndirect SBC s
      else if opcode = INS_SBC_INDY then with_address (AddrIndirectIndexed addCycleOnPageCross_default) SBC s
      else if opcode = INS_CMP_IM then with_address AddrImmediate CMP s
      else if opcode = INS_CMP_ZP then with_address AddrZeroPage CMP s
      else if opcode = INS_CMP_ZPX then with_address AddrZeroPageX CMP s
      else if opcode = INS_CMP_ABS then with_address AddrAbsolute CMP s
      else if opcode = INS_CMP_ABSX then with_address (AddrAbsoluteX addCycleOnPageCross_default) CMP s
      else if opcode = INS_CMP_ABSY then with_address (AddrAbsoluteY addCycleOnPageCross_default) CMP s
      else if opcode = INS_CMP_INDX then with_address AddrIndexedIndirect CMP s
      else if opcode = INS_CMP_INDY then with_address (AddrIndirectIndexed addCycleOnPageCross_default) CMP s
      else if opcode = INS_CPX_IM then with_address AddrImmediate CPX s
      else if opcode = INS_CPX_ZP then with_address AddrZeroPage CPX s
      else if opcode = INS_CPX_ABS then with_address AddrAbsolute CPX s
      else if opcode = INS_CPY_IM then with_address AddrImmediate CPY s
      else if opcode = INS_CPY_ZP then with_address AddrZeroPage CPY s
      else if opcode = INS_CPY_ABS then with_address AddrAbsolute CPY s
      else if opcode = INS_INC_ZP then with_address AddrZeroPage INC s
      else if opcode = INS_INC_ZPX then with_address AddrZeroPageX INC s
      else if opcode = INS_INC_ABS then with_address AddrAbsolute INC s
      else if opcode = INS_INC_ABSX then with_address (AddrAbsoluteX False) INC s
      else if opcode = INS_INX then INX s
      else if opcode = INS_INY then INY s
      else if opcode = INS_DEC_ZP then with_address AddrZeroPage DEC s
      else if opcode = INS_DEC_ZPX then with_address AddrZeroPageX DEC s
      else if opcode = INS_DEC_ABS then with_address AddrAbsolute DEC s
      else if opcode = INS_DEC_ABSX then with_address (AddrAbsoluteX False) DEC s
      else if opcode = INS_DEX then DEX s
      else if opcode = INS_DEY then DEY s
      else if opcode = INS_ASL_ACC then ASL_ACC s
      else if opcode = INS_ASL_ZP then with_address AddrZeroPage ASL_MEM s
      else if opcode = INS_ASL_ZPX then with_address AddrZeroPageX ASL_MEM s
      else if opcode = INS_ASL_ABS then with_address AddrAbsolute ASL_MEM s
      else if opcode = INS_ASL_ABSX then with_address (AddrAbsoluteX False) ASL_MEM s
      else if opcode = INS_LSR_ACC then LSR_ACC s
      else if opcode = INS_LSR_ZP then with_address AddrZeroPage LSR_MEM s
      else if opcode = INS_LSR_ZPX then with_address AddrZeroPageX LSR_MEM s
      else if opcode = INS_LSR_ABS then with_address AddrAbsolute LSR_MEM s
      else if opcode = INS_LSR_ABSX then with_address (AddrAbsoluteX False) LSR_MEM s
      else if opcode = INS_ROL_ACC then ROL_ACC s
      else if opcode = INS_ROL_ZP then with_address AddrZeroPage ROL_MEM s
      else if opcode = INS_ROL_ZPX then with_address AddrZeroPageX ROL_MEM s
      else if opcode = INS_ROL_ABS then with_address AddrAbsolute ROL_MEM s
      else if opcode = INS_ROL_ABSX then with_address (AddrAbsoluteX False) ROL_MEM s
      else if opcode = INS_ROR_ACC then ROR_ACC s
      else if opcode = INS_ROR_ZP then with_address AddrZeroPage ROR_MEM s
      else if opcode = INS_ROR_ZPX then with_address AddrZeroPageX ROR_MEM s
      else if opcode = INS_ROR_ABS then with_address AddrAbsolute ROR_MEM s
      else if opcode = INS_ROR_ABSX then with_address (AddrAbsoluteX False) ROR_MEM s
      else if opcode = INS_JMP_ABS then with_address AddrAbsolute JMP s
      else if opcode = INS_JMP_IND then JMP_indirect s
      else if opcode = INS_JSR then with_address AddrAbsolute JSR s
      else if opcode = INS_RTS then RTS s
      else if opcode = INS_RTI then RTI s
      else if opcode = INS_BCC then BranchIf (\<not> GetFlag FLAG_CARRY s) s
      else if opcode = INS_BCS then BranchIf (GetFlag FLAG_CARRY s) s
      else if opcode = INS_BEQ then BranchIf (GetFlag FLAG_ZERO s) s
      else if opcode = INS_BMI then BranchIf (GetFlag FLAG_NEGATIVE s) s
      else if opcode = INS_BNE then BranchIf (\<not> GetFlag FLAG_ZERO s) s
      else if opcode = INS_BPL then BranchIf (\<not> GetFlag FLAG_NEGATIVE s) s
      else if opcode = INS_BVC then BranchIf (\<not> GetFlag FLAG_OVERFLOW s) s
      else if opcode = INS_BVS then BranchIf (GetFlag FLAG_OVERFLOW s) s
      else if opcode = INS_CLC then CLC s
      else if opcode = INS_CLD then CLD s
      else if opcode = INS_CLI then CLI s
      else if opcode = INS_CLV then CLV s
      else if opcode = INS_SEC then SEC s
      else if opcode = INS_SED then SED s
      else if opcode = INS_SEI then SEI s
      else if opcode = INS_BRK then BRK s
      else if opcode = INS_NOP then NOP s
      else s\<lparr>cycles := cycles s + 1\<rparr>)"

text \<open>\<open>Cycles CPU::Execute(Memory&)\<close>: one instruction. The counter \<open>cyclesUsed\<close> is a
  local variable that starts at 0.\<close>

definition Execute :: "machine \<Rightarrow> Cycles \<times> machine" where
  "Execute s =
     (let s = s\<lparr>cycles := 0\<rparr>;
          (opcode, s) = FetchByte s;
          s = dispatch opcode s;
          s = s\<lparr>TotalCycles := TotalCycles s + cycles s\<rparr>
      in (cycles s, s))"

text \<open>\<open>Cycles CPU::Execute(Cycles, Memory&)\<close>: instructions until the budget is reached.
  The \<open>while\<close> loop may run forever, in which case the result is \<open>None\<close>.\<close>

partial_function (option) Execute_loop :: "Cycles \<Rightarrow> Cycles \<Rightarrow> machine \<Rightarrow> (Cycles \<times> machine) option" where
  "Execute_loop budget cyclesExecuted s =
     (if cyclesExecuted < budget
      then (case Execute s of (instructionCycles, s') \<Rightarrow>
              Execute_loop budget (cyclesExecuted + instructionCycles) s')
      else Some (cyclesExecuted, s))"

definition Execute_cycles :: "Cycles \<Rightarrow> machine \<Rightarrow> (Cycles \<times> machine) option" where
  "Execute_cycles budget s = Execute_loop budget 0 s"

section \<open>Notions used in the statements\<close>

text \<open>The 16-bit word \<open>(highByte << 8) | lowByte\<close> that the sources build from two
  bytes wherever they read a little-endian word.\<close>

definition make_word :: "Byte \<Rightarrow> Byte \<Rightarrow> Word" where
  "make_word highByte lowByte = push_bit 8 (ucast highByte) OR ucast lowByte"

text \<open>The counter of machine \<open>t\<close> is that of machine \<open>s\<close> plus 1 to 6 ticks.\<close>

definition cyc_ok :: "machine \<Rightarrow> machine \<Rightarrow> bool" where
  "cyc_ok s t = (cycles t \<in> {cycles s + 1, cycles s + 2, cycles s + 3, cycles s + 4,
                              cycles s + 5, cycles s + 6})"

text \<open>The machine after \<open>n\<close> whole instructions, and the cycles these \<open>n\<close> steps
  returned, added up in the 64-bit counter.\<close>

fun run :: "nat \<Rightarrow> machine \<Rightarrow> machine" where
  "run 0 s = s"
| "run (Suc n) s = run n (snd (Execute s))"

fun spent :: "nat \<Rightarrow> machine \<Rightarrow> Cycles" where
  "spent 0 s = 0"
| "spent (Suc n) s = fst (Execute s) + spent n (snd (Execute s))"

text \<open>A memory that holds the opcode of \<open>NOP\<close> at every address.\<close>

definition nop_memory :: Memory where
  "nop_memory = (\<lambda>_. INS_NOP)"

section \<open>Basic facts\<close>

subsection \<open>Memory accesses\<close>

lemma mem_read_eq: "mem_read a s = (memory s a, s\<lparr>cycles := cycles s + 1\<rparr>)"
  by (simp add: mem_read_def ReadByte_def)

lemma mem_write_eq:
  "mem_write a v s = s\<lparr>memory := (memory s)(a := v), cycles := cycles s + 1\<rparr>"
  by (simp add: mem_write_def WriteByte_def)

lemma ReadWord_eq: "ReadWord m a c = (make_word (m (a + 1)) (m a), c + 2)"
  by (simp add: ReadWord_def ReadByte_def make_word_def)

lemma mem_read_word_eq:
  "mem_read_word a s = (make_word (memory s (a + 1)) (memory s a), s\<lparr>cycles := cycles s + 2\<rparr>)"
  by (simp add: mem_read_word_def ReadWord_eq)

subsection \<open>Words made of two bytes\<close>

lemma make_word_plus: "make_word hi lo = push_bit 8 (ucast hi) + ucast lo"
  using word_cat_eq_push_bit_or [of hi lo, where 'c = 16] word_cat_eq [of hi lo, where 'c = 16]
  by (simp add: make_word_def)

lemma unat_make_word: "unat (make_word hi lo) = unat lo + 256 * unat hi"
proof -
  have hi: "unat hi < 256" and lo: "unat lo < 256"
    using unsigned_less [of hi, where ?'a = nat] unsigned_less [of lo, where ?'a = nat]
    by simp_all
  have uc: "unat (ucast hi :: Word) = unat hi" "unat (ucast lo :: Word) = unat lo"
    using hi lo by (simp_all add: unsigned_ucast_eq take_bit_eq_mod)
  have "unat (push_bit 8 (ucast hi) + ucast lo :: Word) = (256 * unat hi + unat lo) mod 65536"
    by (simp add: unat_word_ariths push_bit_eq_mult mult.commute uc mod_simps)
  also have "\<dots> = 256 * unat hi + unat lo"
    using hi lo by simp
  finally show ?thesis by (simp add: make_word_plus)
qed

lemma low_byte_make_word: "ucast (make_word hi lo) = lo"
  unfolding make_word_def by (rule bit_word_eqI) (auto simp add: bit_simps)

lemma high_byte_make_word: "ucast (drop_bit 8 (make_word hi lo)) = hi"
  unfolding make_word_def
  by (rule bit_word_eqI) (auto simp add: bit_simps dest: bit_imp_le_length)

text \<open>Two addresses are on the same page when their high bytes are equal.\<close>

lemma page_mask: "(0xFF00 :: Word) = push_bit 8 (mask 8)"
  by (simp add: mask_eq_exp_minus_1)

lemma same_page_iff:
  "(a AND 0xFF00 = b AND 0xFF00) \<longleftrightarrow> (drop_bit 8 a = drop_bit 8 (b :: Word))"
proof
  assume h: "a AND 0xFF00 = b AND 0xFF00"
  show "drop_bit 8 a = drop_bit 8 b"
  proof (rule bit_word_eqI)
    fix n assume "n < LENGTH(16)"
    from h have "bit (a AND push_bit 8 (mask 8)) (8 + n) = bit (b AND push_bit 8 (mask 8)) (8 + n)"
      by (simp add: page_mask)
    then show "bit (drop_bit 8 a) n = bit (drop_bit 8 b) n"
      by (auto simp add: bit_simps dest: bit_imp_le_length)
  qed
next
  assume h: "drop_bit 8 a = drop_bit 8 b"
  show "a AND 0xFF00 = b AND 0xFF00"
    unfolding page_mask
  proof (rule bit_word_eqI)
    fix n assume "n < LENGTH(16)"
    from h have "bit (drop_bit 8 a) (n - 8) = bit (drop_bit 8 b) (n - 8)"
      by simp
    then show "bit (a AND push_bit 8 (mask 8)) n = bit (b AND push_bit 8 (mask 8)) n"
      by (cases "8 \<le> n") (auto simp add: bit_simps)
  qed
qed

subsection \<open>Flags\<close>

lemma SetFlag_frame:
  "A (SetFlag f c s) = A s" "X (SetFlag f c s) = X s" "Y (SetFlag f c s) = Y s"
  "PC (SetFlag f c s) = PC s" "SP (SetFlag f c s) = SP s"
  "TotalCycles (SetFlag f c s) = TotalCycles s"
  "memory (SetFlag f c s) = memory s" "cycles (SetFlag f c s) = cycles s"
  by (simp_all add: SetFlag_def)

lemma SetFlag_P: "P (SetFlag f c s) = (if c then P s OR f else P s AND NOT f)"
  by (simp add: SetFlag_def)

lemma UpdateZN_frame:
  "A (UpdateZeroAndNegativeFlags v s) = A s" "X (UpdateZeroAndNegativeFlags v s) = X s"
  "Y (UpdateZeroAndNegativeFlags v s) = Y s" "PC (UpdateZeroAndNegativeFlags v s) = PC s"
  "SP (UpdateZeroAndNegativeFlags v s) = SP s"
  "TotalCycles (UpdateZeroAndNegativeFlags v s) = TotalCycles s"
  "memory (UpdateZeroAndNegativeFlags v s) = memory s"
  "cycles (UpdateZeroAndNegativeFlags v s) = cycles s"
  by (simp_all add: UpdateZeroAndNegativeFlags_def SetFlag_frame)

lemma GetFlag_frame:
  "GetFlag f (s\<lparr>cycles := k\<rparr>) = GetFlag f s"
  "GetFlag f (s\<lparr>PC := w\<rparr>) = GetFlag f s"
  "GetFlag f (s\<lparr>A := v\<rparr>) = GetFlag f s"
  "GetFlag f (s\<lparr>memory := m\<rparr>) = GetFlag f s"
  by (simp_all add: GetFlag_def)

lemmas helper_defs = FetchByte_def FetchWord_def mem_read_eq mem_write_eq mem_read_word_eq
  PushByteToStack_def PushWordToStack_def PopByteFromStack_def PopWordFromStack_def
  SetFlag_frame UpdateZN_frame Let_def

lemmas mode_defs = AddrImmediate_def AddrZeroPage_def AddrZeroPageX_def AddrZeroPageY_def
  AddrAbsolute_def AddrAbsoluteX_def AddrAbsoluteY_def AddrIndexedIndirect_def
  AddrIndirectIndexed_def with_address_def

lemmas ins_defs = LDA_def LDX_def LDY_def STA_def STX_def STY_def TAX_def TAY_def TXA_def
  TYA_def TSX_def TXS_def PHA_def PHP_def PLA_def PLP_def AND_A_def ORA_def EOR_def BIT_def
  ADC_def SBC_def CompareRegister_def CMP_def CPX_def CPY_def INC_def INX_def INY_def DEC_def
  DEX_def DEY_def ASL_ACC_def ASL_MEM_def LSR_ACC_def LSR_MEM_def ROL_ACC_def ROL_MEM_def
  ROR_ACC_def ROR_MEM_def JMP_def JSR_def RTS_def RTI_def BranchIf_def CLC_def CLD_def
  CLI_def CLV_def SEC_def SED_def SEI_def BRK_def NOP_def JMP_indirect_def

subsection \<open>One step\<close>

lemma Execute_eq:
  "Execute s =
     (cycles (dispatch (memory s (PC s)) (s\<lparr>cycles := 1, PC := PC s + 1\<rparr>)),
      (dispatch (memory s (PC s)) (s\<lparr>cycles := 1, PC := PC s + 1\<rparr>))
        \<lparr>TotalCycles := TotalCycles (dispatch (memory s (PC s)) (s\<lparr>cycles := 1, PC := PC s + 1\<rparr>))
            + cycles (dispatch (memory s (PC s)) (s\<lparr>cycles := 1, PC := PC s + 1\<rparr>))\<rparr>)"
  by (simp add: Execute_def FetchByte_def mem_read_eq Let_def)

lemma Reset_eq:
  "Reset s = s\<lparr>PC := make_word (memory s 0xFFFD) (memory s 0xFFFC),
       SP := 0xFD, P := 0x24, A := 0, X := 0, Y := 0, TotalCycles := TotalCycles s + 8\<rparr>"
  by (simp add: Reset_def ReadWord_eq SetFlag_def VECTOR_RESET_def STACK_POINTER_RESET_def
      FLAG_UNUSED_def FLAG_INTERRUPT_def)

subsection \<open>The cycles each instruction charges\<close>

lemmas opcode_defs =
  INS_LDA_IM_def INS_LDA_ZP_def INS_LDA_ZPX_def INS_LDA_ABS_def INS_LDA_ABSX_def
  INS_LDA_ABSY_def INS_LDA_INDX_def INS_LDA_INDY_def INS_LDX_IM_def INS_LDX_ZP_def
  INS_LDX_ZPY_def INS_LDX_ABS_def INS_LDX_ABSY_def INS_LDY_IM_def INS_LDY_ZP_def
  INS_LDY_ZPX_def INS_LDY_ABS_def INS_LDY_ABSX_def INS_STA_ZP_def INS_STA_ZPX_def
  INS_STA_ABS_def INS_STA_ABSX_def INS_STA_ABSY_def INS_STA_INDX_def INS_STA_INDY_def
  INS_STX_ZP_def INS_STX_ZPY_def INS_STX_ABS_def INS_STY_ZP_def INS_STY_ZPX_def
  INS_STY_ABS_def INS_TAX_def INS_TAY_def INS_TXA_def INS_TYA_def INS_TSX_def INS_TXS_def
  INS_PHA_def INS_PHP_def INS_PLA_def INS_PLP_def INS_AND_IM_def INS_AND_ZP_def
  INS_AND_ZPX_def INS_AND_ABS_def INS_AND_ABSX_def INS_AND_ABSY_def INS_AND_INDX_def
  INS_AND_INDY_def INS_ORA_IM_def INS_ORA_ZP_def INS_ORA_ZPX_def INS_ORA_ABS_def
  INS_ORA_ABSX_def INS_ORA_ABSY_def INS_ORA_INDX_def INS_ORA_INDY_def INS_EOR_IM_def
  INS_EOR_ZP_def INS_EOR_ZPX_def INS_EOR_ABS_def INS_EOR_ABSX_def INS_EOR_ABSY_def
  INS_EOR_INDX_def INS_EOR_INDY_def INS_BIT_ZP_def INS_BIT_ABS_def INS_ADC_IM_def
  INS_ADC_ZP_def INS_ADC_ZPX_def INS_ADC_ABS_def INS_ADC_ABSX_def INS_ADC_ABSY_def
  INS_ADC_INDX_def INS_ADC_INDY_def INS_SBC_IM_def INS_SBC_ZP_def INS_SBC_ZPX_def
  INS_SBC_ABS_def INS_SBC_ABSX_def INS_SBC_ABSY_def INS_SBC_INDX_def INS_SBC_INDY_def
  INS_CMP_IM_def INS_CMP_ZP_def INS_CMP_ZPX_def INS_CMP_ABS_def INS_CMP_ABSX_def
  INS_CMP_ABSY_def INS_CMP_INDX_def INS_CMP_INDY_def INS_CPX_IM_def INS_CPX_ZP_def
  INS_CPX_ABS_def INS_CPY_IM_def INS_CPY_ZP_def INS_CPY_ABS_def INS_INC_ZP_def INS_INC_ZPX_def
  INS_INC_ABS_def INS_INC_ABSX_def INS_INX_def INS_INY_def INS_DEC_ZP_def INS_DEC_ZPX_def
  INS_DEC_ABS_def INS_DEC_ABSX_def INS_DEX_def INS_DEY_def INS_ASL_ACC_def INS_ASL_ZP_def
  INS_ASL_ZPX_def INS_ASL_ABS_def INS_ASL_ABSX_def INS_LSR_ACC_def INS_LSR_ZP_def
  INS_LSR_ZPX_def INS_LSR_ABS_def INS_LSR_ABSX_def INS_ROL_ACC_def INS_ROL_ZP_def
  INS_ROL_ZPX_def INS_ROL_ABS_def INS_ROL_ABSX_def INS_ROR_ACC_def INS_ROR_ZP_def
  INS_ROR_ZPX_def INS_ROR_ABS_def INS_ROR_ABSX_def INS_JMP_ABS_def INS_JMP_IND_def INS_JSR_def
  INS_RTS_def INS_RTI_def INS_BCC_def INS_BCS_def INS_BEQ_def INS_BMI_def INS_BNE_def
  INS_BPL_def INS_BVC_def INS_BVS_def INS_CLC_def INS_CLD_def INS_CLI_def INS_CLV_def
  INS_SEC_def INS_SED_def INS_SEI_def INS_BRK_def INS_NOP_def

lemma mode_cycles:
  "cycles (snd (AddrImmediate s)) = cycles s + 1"
  "cycles (snd (AddrZeroPage s)) = cycles s + 1"
  "cycles (snd (AddrZeroPageX s)) = cycles s + 2"
  "cycles (snd (AddrZeroPageY s)) = cycles s + 2"
  "cycles (snd (AddrAbsolute s)) = cycles s + 2"
  "cycles (snd (AddrAbsoluteX False s)) = cycles s + 2"
  "cycles (snd (AddrAbsoluteY False s)) = cycles s + 2"
  "cycles (snd (AddrIndexedIndirect s)) = cycles s + 4"
  "cycles (snd (AddrIndirectIndexed False s)) = cycles s + 3"
  by (simp_all add: mode_defs helper_defs)

lemma mode_cycles_cross:
  "cycles (snd (AddrAbsoluteX True s)) \<in> {cycles s + 2, cycles s + 3}"
  "cycles (snd (AddrAbsoluteY True s)) \<in> {cycles s + 2, cycles s + 3}"
  "cycles (snd (AddrIndirectIndexed True s)) \<in> {cycles s + 3, cycles s + 4}"
  by (simp_all add: mode_defs helper_defs)

lemma ins_cycles:
  "cycles (LDA a s) = cycles s + 1" "cycles (LDX a s) = cycles s + 1"
  "cycles (LDY a s) = cycles s + 1" "cycles (STA a s) = cycles s + 1"
  "cycles (STX a s) = cycles s + 1" "cycles (STY a s) = cycles s + 1"
  "cycles (AND_A a s) = cycles s + 1" "cycles (ORA a s) = cycles s + 1"
  "cycles (EOR a s) = cycles s + 1" "cycles (BIT a s) = cycles s + 1"
  "cycles (CMP a s) = cycles s + 1" "cycles (CPX a s) = cycles s + 1"
  "cycles (CPY a s) = cycles s + 1"
  "cycles (INC a s) = cycles s + 3" "cycles (DEC a s) = cycles s + 3"
  "cycles (ASL_MEM a s) = cycles s + 3" "cycles (LSR_MEM a s) = cycles s + 3"
  "cycles (ROL_MEM a s) = cycles s + 3" "cycles (ROR_MEM a s) = cycles s + 3"
  "cycles (JMP a s) = cycles s" "cycles (JSR a s) = cycles s + 3"
  by (simp_all add: ins_defs helper_defs)

lemma ADC_cycles: "cycles (ADC a s) = cycles s + 1"
  by (simp add: ADC_def helper_defs)

lemma SBC_cycles: "cycles (SBC a s) = cycles s + 1"
  by (simp add: SBC_def helper_defs)

lemma imp_cycles:
  "cycles (TAX s) = cycles s + 1" "cycles (TAY s) = cycles s + 1"
  "cycles (TXA s) = cycles s + 1" "cycles (TYA s) = cycles s + 1"
  "cycles (TSX s) = cycles s + 1" "cycles (TXS s) = cycles s + 1"
  "cycles (PHA s) = cycles s + 2" "cycles (PHP s) = cycles s + 2"
  "cycles (PLA s) = cycles s + 3" "cycles (PLP s) = cycles s + 3"
  "cycles (INX s) = cycles s + 1" "cycles (INY s) = cycles s + 1"
  "cycles (DEX s) = cycles s + 1" "cycles (DEY s) = cycles s + 1"
  "cycles (ASL_ACC s) = cycles s + 1" "cycles (LSR_ACC s) = cycles s + 1"
  "cycles (ROL_ACC s) = cycles s + 1" "cycles (ROR_ACC s) = cycles s + 1"
  "cycles (RTS s) = cycles s + 5" "cycles (RTI s) = cycles s + 4"
  "cycles (CLC s) = cycles s + 1" "cycles (CLD s) = cycles s + 1"
  "cycles (CLI s) = cycles s + 1" "cycles (CLV s) = cycles s + 1"
  "cycles (SEC s) = cycles s + 1" "cycles (SED s) = cycles s + 1"
  "cycles (SEI s) = cycles s + 1" "cycles (BRK s) = cycles s + 6"
  "cycles (NOP s) = cycles s + 1" "cycles (JMP_indirect s) = cycles s + 4"
  by (simp_all add: ins_defs helper_defs)

lemma BranchIf_cycles:
  "cycles (BranchIf c s) \<in> {cycles s + 1, cycles s + 2, cycles s + 3}"
  by (simp add: BranchIf_def helper_defs)

lemma with_address_cycles:
  "cycles (with_address m i s) = cycles (i (fst (m s)) (snd (m s)))"
  by (simp add: with_address_def case_prod_beta)

text \<open>Every case of the dispatch charges 1 to 6 ticks. The property is pushed through the
  chain of cases and decided case by case.\<close>

lemma cyc_ok_if: "cyc_ok s (if c then a else b) = (if c then cyc_ok s a else cyc_ok s b)"
  by simp

lemma cyc_ok_with:
  "cyc_ok s (with_address AddrImmediate i s) =
     (cycles (i (fst (AddrImmediate s)) (snd (AddrImmediate s)))
        \<in> {cycles s + 1, cycles s + 2, cycles s + 3, cycles s + 4, cycles s + 5, cycles s + 6})"
  "cyc_ok s (with_address AddrZeroPage i s) =
     (cycles (i (fst (AddrZeroPage s)) (snd (AddrZeroPage s)))
        \<in> {cycles s + 1, cycles s + 2, cycles s + 3, cycles s + 4, cycles s + 5, cycles s + 6})"
  "cyc_ok s (with_address AddrZeroPageX i s) =
     (cycles (i (fst (AddrZeroPageX s)) (snd (AddrZeroPageX s)))
        \<in> {cycles s + 1, cycles s + 2, cycles s + 3, cycles s + 4, cycles s + 5, cycles s + 6})"
  "cyc_ok s (with_address AddrZeroPageY i s) =
     (cycles (i (fst (AddrZeroPageY s)) (snd (AddrZeroPageY s)))
        \<in> {cycles s + 1, cycles s + 2, cycles s + 3, cycles s + 4, cycles s + 5, cycles s + 6})"
  "cyc_ok s (with_address AddrAbsolute i s) =
     (cycles (i (fst (AddrAbsolute s)) (snd (AddrAbsolute s)))
        \<in> {cycles s + 1, cycles s + 2, cycles s + 3, cycles s + 4, cycles s + 5, cycles s + 6})"
  "cyc_ok s (with_address (AddrAbsoluteX False) i s) =
     (cycles (i (fst (AddrAbsoluteX False s)) (snd (AddrAbsoluteX False s)))
        \<in> {cycles s + 1, cycles s + 2, cycles s + 3, cycles s + 4, cycles s + 5, cycles s + 6})"
  "cyc_ok s (with_address (AddrAbsoluteY False) i s) =
     (cycles (i (fst (AddrAbsoluteY False s)) (snd (AddrAbsoluteY False s)))
        \<in> {cycles s + 1, cycles s + 2, cycles s + 3, cycles s + 4, cycles s + 5, cycles s + 6})"
  "cyc_ok s (with_address AddrIndexedIndirect i s) =
     (cycles (i (fst (AddrIndexedIndirect s)) (snd (AddrIndexedIndirect s)))
        \<in> {cycles s + 1, cycles s + 2, cycles s + 3, cycles s + 4, cycles s + 5, cycles s + 6})"
  "cyc_ok s (with_address (AddrIndirectIndexed False) i s) =
     (cycles (i (fst (AddrIndirectIndexed False s)) (snd (AddrIndirectIndexed False s)))
        \<in> {cycles s + 1, cycles s + 2, cycles s + 3, cycles s + 4, cycles s + 5, cycles s + 6})"
  by (simp_all add: cyc_ok_def with_address_def case_prod_beta)

lemma cyc_ok_cross:
  assumes "\<And>a t. cycles (i a t) = cycles t + 1"
  shows "cyc_ok s (with_address (AddrAbsoluteX True) i s)"
    and "cyc_ok s (with_address (AddrAbsoluteY True) i s)"
    and "cyc_ok s (with_address (AddrIndirectIndexed True) i s)"
  using mode_cycles_cross [of s]
  by (auto simp add: cyc_ok_def with_address_cycles assms)

lemma cyc_ok_BranchIf: "cyc_ok s (BranchIf c s)"
  using BranchIf_cycles [of c s] by (auto simp add: cyc_ok_def)

lemma cyc_ok_imp:
  "cyc_ok s (TAX s)" "cyc_ok s (TAY s)" "cyc_ok s (TXA s)" "cyc_ok s (TYA s)"
  "cyc_ok s (TSX s)" "cyc_ok s (TXS s)" "cyc_ok s (PHA s)" "cyc_ok s (PHP s)"
  "cyc_ok s (PLA s)" "cyc_ok s (PLP s)" "cyc_ok s (INX s)" "cyc_ok s (INY s)"
  "cyc_ok s (DEX s)" "cyc_ok s (DEY s)" "cyc_ok s (ASL_ACC s)" "cyc_ok s (LSR_ACC s)"
  "cyc_ok s (ROL_ACC s)" "cyc_ok s (ROR_ACC s)" "cyc_ok s (RTS s)" "cyc_ok s (RTI s)"
  "cyc_ok s (CLC s)" "cyc_ok s (CLD s)" "cyc_ok s (CLI s)" "cyc_ok s (CLV s)"
  "cyc_ok s (SEC s)" "cyc_ok s (SED s)" "cyc_ok s (SEI s)" "cyc_ok s (BRK s)"
  "cyc_ok s (NOP s)" "cyc_ok s (JMP_indirect s)" "cyc_ok s (s\<lparr>cycles := cycles s + 1\<rparr>)"
  by (simp_all add: cyc_ok_def imp_cycles)

lemma dispatch_cycles: "cyc_ok s (dispatch opcode s)"
  unfolding dispatch_def addCycleOnPageCross_default_def
  by (simp add: cyc_ok_if cyc_ok_with cyc_ok_cross cyc_ok_BranchIf cyc_ok_imp
      ins_cycles mode_cycles ADC_cycles SBC_cycles cong del: if_weak_cong)

lemma Execute_cost_range: "fst (Execute s) \<in> {2, 3, 4, 5, 6, 7}"
  using dispatch_cycles [of "s\<lparr>cycles := 1, PC := PC s + 1\<rparr>" "memory s (PC s)"]
  by (simp add: Execute_eq cyc_ok_def)

subsection \<open>The Unused bit through each instruction\<close>

lemma bit5_mask: "bit (p :: Byte) 5 \<longleftrightarrow> p AND 0x20 = 0x20"
proof -
  have e: "(0x20 :: Byte) = push_bit 5 1" by simp
  have b: "bit (push_bit 5 1 :: Byte) n \<longleftrightarrow> n = 5" for n
    by (auto simp only: bit_push_bit_iff bit_1_iff possible_bit_word len_bit0 len_num1)
  have "p AND push_bit 5 1 = push_bit 5 1 \<longleftrightarrow> bit p 5"
    unfolding bit_eq_iff [of "p AND push_bit 5 1"] bit_and_iff b
    by (auto elim!: allE [of _ 5])
  then show ?thesis unfolding e by simp
qed

lemma bit5_SetFlag:
  "bit (P (SetFlag FLAG_CARRY c s)) 5 = bit (P s) 5"
  "bit (P (SetFlag FLAG_ZERO c s)) 5 = bit (P s) 5"
  "bit (P (SetFlag FLAG_INTERRUPT c s)) 5 = bit (P s) 5"
  "bit (P (SetFlag FLAG_DECIMAL c s)) 5 = bit (P s) 5"
  "bit (P (SetFlag FLAG_OVERFLOW c s)) 5 = bit (P s) 5"
  "bit (P (SetFlag FLAG_NEGATIVE c s)) 5 = bit (P s) 5"
  "bit (P (SetFlag FLAG_UNUSED True s)) 5"
  by (simp_all add: SetFlag_def bit_or_iff bit_and_iff bit_not_iff FLAG_CARRY_def FLAG_ZERO_def
      FLAG_INTERRUPT_def FLAG_DECIMAL_def FLAG_OVERFLOW_def FLAG_NEGATIVE_def FLAG_UNUSED_def)

lemma bit5_pushed: "bit (p OR FLAG_BREAK OR FLAG_UNUSED) 5"
  by (simp add: bit_or_iff FLAG_BREAK_def FLAG_UNUSED_def)

lemma bit5_UpdateZN: "bit (P (UpdateZeroAndNegativeFlags v s)) 5 = bit (P s) 5"
  by (simp add: UpdateZeroAndNegativeFlags_def bit5_SetFlag)

lemma mode_P:
  "P (snd (AddrImmediate s)) = P s" "P (snd (AddrZeroPage s)) = P s"
  "P (snd (AddrZeroPageX s)) = P s" "P (snd (AddrZeroPageY s)) = P s"
  "P (snd (AddrAbsolute s)) = P s" "P (snd (AddrAbsoluteX b s)) = P s"
  "P (snd (AddrAbsoluteY b s)) = P s" "P (snd (AddrIndexedIndirect s)) = P s"
  "P (snd (AddrIndirectIndexed b s)) = P s"
  by (simp_all add: mode_defs helper_defs)

lemma ins_bit5:
  "bit (P (LDA a s)) 5 = bit (P s) 5" "bit (P (LDX a s)) 5 = bit (P s) 5"
  "bit (P (LDY a s)) 5 = bit (P s) 5" "bit (P (STA a s)) 5 = bit (P s) 5"
  "bit (P (STX a s)) 5 = bit (P s) 5" "bit (P (STY a s)) 5 = bit (P s) 5"
  "bit (P (AND_A a s)) 5 = bit (P s) 5" "bit (P (ORA a s)) 5 = bit (P s) 5"
  "bit (P (EOR a s)) 5 = bit (P s) 5" "bit (P (BIT a s)) 5 = bit (P s) 5"
  "bit (P (CMP a s)) 5 = bit (P s) 5" "bit (P (CPX a s)) 5 = bit (P s) 5"
  "bit (P (CPY a s)) 5 = bit (P s) 5"
  "bit (P (INC a s)) 5 = bit (P s) 5" "bit (P (DEC a s)) 5 = bit (P s) 5"
  "bit (P (ASL_MEM a s)) 5 = bit (P s) 5" "bit (P (LSR_MEM a s)) 5 = bit (P s) 5"
  "bit (P (ROL_MEM a s)) 5 = bit (P s) 5" "bit (P (ROR_MEM a s)) 5 = bit (P s) 5"
  "bit (P (JMP w s)) 5 = bit (P s) 5" "bit (P (JSR a s)) 5 = bit (P s) 5"
  by (simp_all add: ins_defs helper_defs bit5_SetFlag bit5_UpdateZN)

lemma ADC_bit5: "bit (P (ADC a s)) 5 = bit (P s) 5"
  by (simp add: ADC_def helper_defs bit5_SetFlag bit5_UpdateZN)

lemma SBC_bit5: "bit (P (SBC a s)) 5 = bit (P s) 5"
  by (simp add: SBC_def helper_defs bit5_SetFlag bit5_UpdateZN)

lemma imp_bit5:
  "bit (P (TAX s)) 5 = bit (P s) 5" "bit (P (TAY s)) 5 = bit (P s) 5"
  "bit (P (TXA s)) 5 = bit (P s) 5" "bit (P (TYA s)) 5 = bit (P s) 5"
  "bit (P (TSX s)) 5 = bit (P s) 5" "bit (P (TXS s)) 5 = bit (P s) 5"
  "bit (P (PHA s)) 5 = bit (P s) 5" "bit (P (PHP s)) 5 = bit (P s) 5"
  "bit (P (PLA s)) 5 = bit (P s) 5" "bit (P (PLP s)) 5 = True"
  "bit (P (INX s)) 5 = bit (P s) 5" "bit (P (INY s)) 5 = bit (P s) 5"
  "bit (P (DEX s)) 5 = bit (P s) 5" "bit (P (DEY s)) 5 = bit (P s) 5"
  "bit (P (ASL_ACC s)) 5 = bit (P s) 5" "bit (P (LSR_ACC s)) 5 = bit (P s) 5"
  "bit (P (ROL_ACC s)) 5 = bit (P s) 5" "bit (P (ROR_ACC s)) 5 = bit (P s) 5"
  "bit (P (RTS s)) 5 = bit (P s) 5" "bit (P (RTI s)) 5 = True"
  "bit (P (CLC s)) 5 = bit (P s) 5" "bit (P (CLD s)) 5 = bit (P s) 5"
  "bit (P (CLI s)) 5 = bit (P s) 5" "bit (P (CLV s)) 5 = bit (P s) 5"
  "bit (P (SEC s)) 5 = bit (P s) 5" "bit (P (SED s)) 5 = bit (P s) 5"
  "bit (P (SEI s)) 5 = bit (P s) 5" "bit (P (BRK s)) 5 = bit (P s) 5"
  "bit (P (NOP s)) 5 = bit (P s) 5" "bit (P (JMP_indirect s)) 5 = bit (P s) 5"
  "bit (P (BranchIf c s)) 5 = bit (P s) 5"
  by (simp_all add: ins_defs helper_defs bit5_SetFlag bit5_UpdateZN)

lemma with_address_P:
  "bit (P (with_address m i s)) 5 = bit (P (i (fst (m s)) (snd (m s)))) 5"
  by (simp add: with_address_def case_prod_beta)

lemma bit5_if: "bit (P (if c then a else b)) 5 = (if c then bit (P a) 5 else bit (P b) 5)"
  by simp

lemma dispatch_bit5: "bit (P s) 5 \<Longrightarrow> bit (P (dispatch opcode s)) 5"
  unfolding dispatch_def addCycleOnPageCross_default_def
  by (simp add: bit5_if with_address_P ins_bit5 imp_bit5 ADC_bit5 SBC_bit5 mode_P
       cong del: if_weak_cong)

lemma Execute_bit5: "bit (P s) 5 \<Longrightarrow> bit (P (snd (Execute s))) 5"
  using dispatch_bit5 [of "s\<lparr>cycles := 1, PC := PC s + 1\<rparr>" "memory s (PC s)"]
  by (simp add: Execute_eq)

subsection \<open>Opcodes\<close>

lemma dispatch_unknown:
  "opcode \<notin> set legal_opcodes \<Longrightarrow> dispatch opcode s = s\<lparr>cycles := cycles s + 1\<rparr>"
  by (simp add: dispatch_def legal_opcodes_def)

lemma legal_count: "length legal_opcodes = 151"
  by (simp add: legal_opcodes_def)

lemma legal_distinct: "distinct legal_opcodes"
  by (simp add: legal_opcodes_def opcode_defs)

subsection \<open>Jumps and branches\<close>

lemma dispatch_JMP_IND: "dispatch INS_JMP_IND s = JMP_indirect s"
  by (simp add: dispatch_def opcode_defs)

lemma JMP_indirect_PC:
  "PC (JMP_indirect s) =
     (if make_word (memory s (PC s + 1)) (memory s (PC s)) AND 0xFF = 0xFF
      then make_word (memory s (make_word (memory s (PC s + 1)) (memory s (PC s)) AND 0xFF00))
             (memory s (make_word (memory s (PC s + 1)) (memory s (PC s))))
      else make_word (memory s (make_word (memory s (PC s + 1)) (memory s (PC s)) + 1))
             (memory s (make_word (memory s (PC s + 1)) (memory s (PC s)))))"
  by (simp add: JMP_indirect_def JMP_def helper_defs make_word_def [symmetric])

lemma make_word_page: "make_word hi lo AND 0xFF00 = make_word hi 0"
  unfolding make_word_def page_mask
  by (rule bit_word_eqI) (auto simp add: bit_simps dest: bit_imp_le_length)

lemma make_word_low_FF: "(make_word hi lo AND 0xFF = 0xFF) \<longleftrightarrow> lo = 0xFF"
proof -
  have m: "(0xFF :: Word) = mask 8" "(0xFF :: Byte) = mask 8"
    by (simp_all add: mask_eq_exp_minus_1)
  have a: "make_word hi lo AND mask 8 = ucast lo"
    unfolding make_word_def
    by (rule bit_word_eqI) (auto simp add: bit_simps dest: bit_imp_le_length)
  have b: "ucast (mask 8 :: Byte) = (mask 8 :: Word)"
    by (rule bit_word_eqI) (auto simp add: bit_simps)
  have c: "ucast (ucast w :: Word) = w" for w :: Byte
    by (rule bit_word_eqI) (auto simp add: bit_simps)
  have "(ucast lo = (mask 8 :: Word)) \<longleftrightarrow> lo = mask 8"
    using b c [of lo] c [of "mask 8"] by metis
  then show ?thesis by (simp add: m a)
qed

lemma dispatch_branches:
  "dispatch INS_BCC s = BranchIf (\<not> GetFlag FLAG_CARRY s) s"
  "dispatch INS_BCS s = BranchIf (GetFlag FLAG_CARRY s) s"
  "dispatch INS_BEQ s = BranchIf (GetFlag FLAG_ZERO s) s"
  "dispatch INS_BMI s = BranchIf (GetFlag FLAG_NEGATIVE s) s"
  "dispatch INS_BNE s = BranchIf (\<not> GetFlag FLAG_ZERO s) s"
  "dispatch INS_BPL s = BranchIf (\<not> GetFlag FLAG_NEGATIVE s) s"
  "dispatch INS_BVC s = BranchIf (\<not> GetFlag FLAG_OVERFLOW s) s"
  "dispatch INS_BVS s = BranchIf (GetFlag FLAG_OVERFLOW s) s"
  by (simp_all add: dispatch_def opcode_defs)

lemma BranchIf_not_taken:
  "BranchIf False (s\<lparr>cycles := 1, PC := PC s + 1\<rparr>) = s\<lparr>cycles := 2, PC := PC s + 2\<rparr>"
  by (simp add: BranchIf_def helper_defs)

lemma BranchIf_taken_PC:
  "PC (BranchIf True (s\<lparr>cycles := 1, PC := PC s + 1\<rparr>)) = PC s + 2 + scast (memory s (PC s + 1))"
  by (simp add: BranchIf_def helper_defs)

lemma BranchIf_taken_cycles:
  "cycles (BranchIf True (s\<lparr>cycles := 1, PC := PC s + 1\<rparr>)) =
     (if drop_bit 8 (PC s + 2 + scast (memory s (PC s + 1))) = drop_bit 8 (PC s + 2) then 3 else 4)"
proof -
  have p2: "PC s + 1 + 1 = PC s + 2" by simp
  show ?thesis
    by (simp add: BranchIf_def helper_defs same_page_iff p2 eq_commute)
qed

subsection \<open>Stores, decimal subtraction, status pushes and the loop\<close>

lemma dispatch_STA_indexed:
  "dispatch INS_STA_ABSX s = with_address (AddrAbsoluteX False) STA s"
  "dispatch INS_STA_ABSY s = with_address (AddrAbsoluteY False) STA s"
  "dispatch INS_STA_INDY s = with_address (AddrIndirectIndexed False) STA s"
  by (simp_all add: dispatch_def opcode_defs)

lemma Execute_STA_indexed:
  "memory s (PC s) = INS_STA_ABSX \<Longrightarrow> fst (Execute s) = 4"
  "memory s (PC s) = INS_STA_ABSY \<Longrightarrow> fst (Execute s) = 4"
  "memory s (PC s) = INS_STA_INDY \<Longrightarrow> fst (Execute s) = 5"
  by (simp_all add: Execute_eq dispatch_STA_indexed with_address_cycles ins_cycles mode_cycles)

lemma dispatch_SBC_IM: "dispatch INS_SBC_IM s = with_address AddrImmediate SBC s"
  by (simp add: dispatch_def opcode_defs)

lemma SetFlag_keeps_overflow:
  "GetFlag FLAG_OVERFLOW (SetFlag FLAG_CARRY c s) = GetFlag FLAG_OVERFLOW s"
  "GetFlag FLAG_OVERFLOW (SetFlag FLAG_ZERO c s) = GetFlag FLAG_OVERFLOW s"
  "GetFlag FLAG_OVERFLOW (SetFlag FLAG_NEGATIVE c s) = GetFlag FLAG_OVERFLOW s"
  by (simp_all add: GetFlag_def SetFlag_def FLAG_CARRY_def FLAG_ZERO_def FLAG_NEGATIVE_def
      FLAG_OVERFLOW_def bit.conj_disj_distrib2 and.assoc)

lemma SBC_decimal_keeps_overflow:
  "GetFlag FLAG_DECIMAL s \<Longrightarrow> GetFlag FLAG_OVERFLOW (SBC a s) = GetFlag FLAG_OVERFLOW s"
  by (simp add: SBC_def mem_read_eq Let_def GetFlag_frame SetFlag_keeps_overflow
      UpdateZeroAndNegativeFlags_def)

lemma Execute_loop_bit5:
  assumes "Execute_loop b ce s = Some r"
  shows "bit (P s) 5 \<longrightarrow> bit (P (snd r)) 5"
proof (rule Execute_loop.raw_induct
    [where P = "\<lambda>b ce s r. bit (P s) 5 \<longrightarrow> bit (P (snd r)) 5", OF _ assms])
  fix f :: "Cycles \<Rightarrow> Cycles \<Rightarrow> machine \<Rightarrow> (Cycles \<times> machine) option" and b ce s r
  assume IH: "\<And>b ce s r. f b ce s = Some r \<Longrightarrow> bit (P s) 5 \<longrightarrow> bit (P (snd r)) 5"
  assume eq: "(if ce < b
               then case Execute s of (instructionCycles, s') \<Rightarrow> f b (ce + instructionCycles) s'
               else Some (ce, s)) = Some r"
  show "bit (P s) 5 \<longrightarrow> bit (P (snd r)) 5"
  proof (cases "ce < b")
    case True
    with eq have "f b (ce + fst (Execute s)) (snd (Execute s)) = Some r"
      by (simp add: case_prod_beta)
    from IH [OF this] Execute_bit5 [of s] show ?thesis by blast
  next
    case False
    with eq show ?thesis by auto
  qed
qed

lemma dispatch_status:
  "dispatch INS_PLP s = PLP s" "dispatch INS_RTI s = RTI s"
  "dispatch INS_PHP s = PHP s" "dispatch INS_BRK s = BRK s"
  by (simp_all add: dispatch_def opcode_defs)

lemma PHP_pushed: "memory (PHP s) (STACK_BASE + ucast (SP s)) = P s OR FLAG_BREAK OR FLAG_UNUSED"
  by (simp add: PHP_def helper_defs)

lemma BRK_pushed:
  "memory (BRK s) (STACK_BASE + ucast (SP s - 2)) = P s OR FLAG_BREAK OR FLAG_UNUSED"
  by (simp add: BRK_def helper_defs)

lemma dispatch_NOP: "dispatch INS_NOP s = NOP s"
  by (simp add: dispatch_def opcode_defs)

lemma Execute_NOP:
  "memory s (PC s) = INS_NOP \<Longrightarrow>
   Execute s = (2, s\<lparr>cycles := 2, PC := PC s + 1, TotalCycles := TotalCycles s + 2\<rparr>)"
  by (simp add: Execute_eq dispatch_NOP NOP_def)

subsection \<open>Decimal addition\<close>

lemmas nzvc_defs = FLAG_CARRY_def FLAG_ZERO_def FLAG_NEGATIVE_def FLAG_OVERFLOW_def

lemma GetFlag_SetFlag_same:
  "GetFlag FLAG_CARRY (SetFlag FLAG_CARRY c s) = c"
  "GetFlag FLAG_ZERO (SetFlag FLAG_ZERO c s) = c"
  "GetFlag FLAG_OVERFLOW (SetFlag FLAG_OVERFLOW c s) = c"
  "GetFlag FLAG_NEGATIVE (SetFlag FLAG_NEGATIVE c s) = c"
  by (simp_all add: GetFlag_def SetFlag_def nzvc_defs bit.conj_disj_distrib2 and.assoc)

lemma GetFlag_SetFlag_other:
  "GetFlag FLAG_ZERO (SetFlag FLAG_CARRY c s) = GetFlag FLAG_ZERO s"
  "GetFlag FLAG_NEGATIVE (SetFlag FLAG_CARRY c s) = GetFlag FLAG_NEGATIVE s"
  "GetFlag FLAG_ZERO (SetFlag FLAG_OVERFLOW c s) = GetFlag FLAG_ZERO s"
  "GetFlag FLAG_NEGATIVE (SetFlag FLAG_OVERFLOW c s) = GetFlag FLAG_NEGATIVE s"
  "GetFlag FLAG_NEGATIVE (SetFlag FLAG_ZERO c s) = GetFlag FLAG_NEGATIVE s"
  "GetFlag FLAG_DECIMAL (SetFlag FLAG_CARRY c s) = GetFlag FLAG_DECIMAL s"
  by (simp_all add: GetFlag_def SetFlag_def nzvc_defs FLAG_DECIMAL_def bit.conj_disj_distrib2 and.assoc)

lemma ucast_low_byte: "ucast (w AND 0xFF :: Word) = (ucast w :: Byte)"
proof -
  have m: "(0xFF :: Word) = mask 8"
    by (simp add: mask_eq_exp_minus_1)
  show ?thesis
    unfolding m by (rule bit_word_eqI) (auto simp add: bit_simps)
qed

lemma ADC_decimal:
  assumes "GetFlag FLAG_DECIMAL s"
  shows "let a = A s; m = memory s address; c = GetFlag FLAG_CARRY s;
             low = ucast (a AND 0x0F) + ucast (m AND 0x0F) + (if c then 1 else 0) :: Word;
             low = (if 9 < low then low + 6 else low);
             r = ucast (a AND 0xF0) + ucast (m AND 0xF0) + (if 0x0F < low then 0x10 else 0)
                   + (low AND 0x0F);
             final = (if 0x90 < r AND 0xF0 then r + 0x60 else r);
             t = ADC address s
         in GetFlag FLAG_NEGATIVE t = (r AND 0x80 \<noteq> 0)
            \<and> GetFlag FLAG_ZERO t = (r AND 0xFF = 0)
            \<and> GetFlag FLAG_OVERFLOW t = ((ucast a XOR r) AND (ucast m XOR r) AND 0x80 \<noteq> 0)
            \<and> GetFlag FLAG_CARRY t = (0x99 < final)
            \<and> A t = ucast final"
  using assms
  by (simp add: ADC_def mem_read_eq Let_def GetFlag_frame SetFlag_frame GetFlag_SetFlag_same
      GetFlag_SetFlag_other SetFlag_keeps_overflow ucast_low_byte)


lemma dispatch_ADC_IM: "dispatch INS_ADC_IM s = with_address AddrImmediate ADC s"
  by (simp add: dispatch_def opcode_defs)

lemma ADC_example:
  "A (snd (Execute ((Reset (attach CPU_new (Initialize(0xFFFD := 0x10, 0x1000 := 0x69,
        0x1001 := 0x27)) 0))\<lparr>A := 0x15, P := 0x2C\<rparr>))) = 0x42
   \<and> \<not> GetFlag FLAG_CARRY (snd (Execute ((Reset (attach CPU_new (Initialize(0xFFFD := 0x10,
        0x1000 := 0x69, 0x1001 := 0x27)) 0))\<lparr>A := 0x15, P := 0x2C\<rparr>)))
   \<and> \<not> GetFlag FLAG_NEGATIVE (snd (Execute ((Reset (attach CPU_new (Initialize(0xFFFD := 0x10,
        0x1000 := 0x69, 0x1001 := 0x27)) 0))\<lparr>A := 0x15, P := 0x2C\<rparr>)))
   \<and> \<not> GetFlag FLAG_ZERO (snd (Execute ((Reset (attach CPU_new (Initialize(0xFFFD := 0x10,
        0x1000 := 0x69, 0x1001 := 0x27)) 0))\<lparr>A := 0x15, P := 0x2C\<rparr>)))"
  by (simp add: Execute_eq Reset_eq attach_def Initialize_def make_word_def INS_ADC_IM_def [symmetric]
      dispatch_ADC_IM with_address_def AddrImmediate_def ADC_def mem_read_eq
      SetFlag_def GetFlag_def Let_def
      FLAG_DECIMAL_def FLAG_CARRY_def FLAG_OVERFLOW_def FLAG_ZERO_def FLAG_NEGATIVE_def)

subsection \<open>Running for a budget\<close>

lemma Execute_cost_unat: "2 \<le> unat (fst (Execute s)) \<and> unat (fst (Execute s)) \<le> 7"
  using Execute_cost_range [of s] by auto

lemma Execute_loop_never:
  assumes "Execute_loop b ce s = Some r"
  shows "\<not> (b = - 1 \<and> even ce \<and> memory s = nop_memory)"
proof (rule Execute_loop.raw_induct
    [where P = "\<lambda>b ce s r. \<not> (b = - 1 \<and> even ce \<and> memory s = nop_memory)", OF _ assms])
  fix f :: "Cycles \<Rightarrow> Cycles \<Rightarrow> machine \<Rightarrow> (Cycles \<times> machine) option" and b ce s r
  assume IH: "\<And>b ce s r. f b ce s = Some r \<Longrightarrow> \<not> (b = - 1 \<and> even ce \<and> memory s = nop_memory)"
  assume eq: "(if ce < b
               then case Execute s of (instructionCycles, s') \<Rightarrow> f b (ce + instructionCycles) s'
               else Some (ce, s)) = Some r"
  show "\<not> (b = - 1 \<and> even ce \<and> memory s = nop_memory)"
  proof
    assume a: "b = - 1 \<and> even ce \<and> memory s = nop_memory"
    then have "ce \<noteq> - 1" by auto
    then have lt: "ce < b" using a
      by (simp add: word_order.not_eq_extremum)
    have n: "memory s (PC s) = INS_NOP"
      using a by (simp add: nop_memory_def)
    from eq lt have "f b (ce + 2) (snd (Execute s)) = Some r"
      by (simp add: Execute_NOP [OF n])
    from IH [OF this] a show False
      by (simp add: Execute_NOP [OF n])
  qed
qed

lemma Execute_loop_total:
  assumes b: "unat b + 6 < 2 ^ 64"
  shows "\<exists>n. Execute_loop b ce s = Some (ce + spent n s, run n s)
           \<and> b \<le> ce + spent n s
           \<and> (ce < b \<longrightarrow> (\<exists>m. n = Suc m \<and> ce + spent m s < b
                  \<and> unat (ce + spent n s)
                      = unat (ce + spent m s) + unat (fst (Execute (run m s)))))"
proof (induction "unat b - unat ce" arbitrary: ce s rule: less_induct)
  case less
  show ?case
  proof (cases "ce < b")
    case False
    then have "Execute_loop b ce s = Some (ce + spent 0 s, run 0 s)"
      by (subst Execute_loop.simps) simp
    moreover from False have "b \<le> ce + spent 0 s" by simp
    ultimately show ?thesis using False by blast
  next
    case True
    define k where "k = fst (Execute s)"
    define s' where "s' = snd (Execute s)"
    have k: "2 \<le> unat k" "unat k \<le> 7"
      using Execute_cost_unat [of s] by (simp_all add: k_def)
    from True have lt: "unat ce < unat b"
      by (simp add: word_less_nat_alt)
    with b k have "unat ce + unat k < 2 ^ 64" by simp
    then have sum: "unat (ce + k) = unat ce + unat k"
      using unat_add_lem [of ce k] by simp
    have step: "Execute_loop b ce s = Execute_loop b (ce + k) s'"
      using True by (subst Execute_loop.simps) (simp add: k_def s'_def case_prod_beta)
    show ?thesis
    proof (cases "ce + k < b")
      case False
      then have "Execute_loop b (ce + k) s' = Some (ce + k, s')"
        by (subst Execute_loop.simps) simp
      with step have "Execute_loop b ce s = Some (ce + spent (Suc 0) s, run (Suc 0) s)"
        by (simp add: k_def s'_def)
      moreover from False have "b \<le> ce + spent (Suc 0) s"
        by (simp add: k_def)
      moreover have "ce + spent 0 s < b" using True by simp
      moreover have "unat (ce + spent (Suc 0) s)
          = unat (ce + spent 0 s) + unat (fst (Execute (run 0 s)))"
        using sum by (simp add: k_def)
      ultimately show ?thesis by blast
    next
      case next_lt: True
      have "unat b - unat (ce + k) < unat b - unat ce"
        using sum lt k by simp
      from less [OF this, of s'] next_lt obtain m where
        r: "Execute_loop b (ce + k) s' = Some (ce + k + spent (Suc m) s', run (Suc m) s')"
        and ge: "b \<le> ce + k + spent (Suc m) s'"
        and before: "ce + k + spent m s' < b"
        and last: "unat (ce + k + spent (Suc m) s')
            = unat (ce + k + spent m s') + unat (fst (Execute (run m s')))"
        by blast
      have e1: "ce + spent (Suc (Suc m)) s = ce + k + spent (Suc m) s'"
        by (simp add: k_def s'_def add.assoc)
      have e2: "ce + spent (Suc m) s = ce + k + spent m s'"
        by (simp add: k_def s'_def add.assoc)
      have e3: "run (Suc (Suc m)) s = run (Suc m) s'" "run (Suc m) s = run m s'"
        by (simp_all add: s'_def)
      from step r have "Execute_loop b ce s = Some (ce + spent (Suc (Suc m)) s, run (Suc (Suc m)) s)"
        unfolding e1 e3 by simp
      moreover from ge have "b \<le> ce + spent (Suc (Suc m)) s"
        unfolding e1 .
      moreover from before have "ce + spent (Suc m) s < b"
        unfolding e2 .
      moreover from last have "unat (ce + spent (Suc (Suc m)) s)
          = unat (ce + spent (Suc m) s) + unat (fst (Execute (run (Suc m) s)))"
        unfolding e1 e2 e3 .
      ultimately show ?thesis by blast
    qed
  qed
qed


lemma spent_last: "spent (Suc m) s = spent m s + fst (Execute (run m s))"
  by (induction m arbitrary: s) (simp_all add: add.assoc)

section \<open>Reset\<close>

text \<open>
  Claim C8. For every memory image, \<open>Reset\<close> sets \<open>PC\<close> to the little-endian 16-bit
  word stored at 0xFFFC/0xFFFD (low byte at 0xFFFC, high byte at 0xFFFD), \<open>SP\<close> to 0xFD
  and \<open>P\<close> to 0x24, which is the Unused and the Interrupt-disable bit and no other; it
  zeroes \<open>A\<close>, \<open>X\<close> and \<open>Y\<close> and adds exactly 8 to \<open>TotalCycles\<close> (a 64-bit counter).
\<close>

theorem C8_reset_state:
  "unat (PC (Reset s)) = unat (memory s 0xFFFC) + 256 * unat (memory s 0xFFFD)
   \<and> SP (Reset s) = 0xFD
   \<and> P (Reset s) = 0x24 \<and> P (Reset s) = FLAG_UNUSED OR FLAG_INTERRUPT
   \<and> A (Reset s) = 0 \<and> X (Reset s) = 0 \<and> Y (Reset s) = 0
   \<and> TotalCycles (Reset s) = TotalCycles s + 8"
  by (simp add: Reset_eq unat_make_word FLAG_UNUSED_def FLAG_INTERRUPT_def)

text \<open>
  Claim C10. \<open>Reset\<close> never writes to memory: every byte of the memory is the same before
  and after. The only bytes it reads are the two of the reset vector: with any other
  memory that holds the same bytes at 0xFFFC and 0xFFFD, \<open>Reset\<close> produces the same CPU
  state and leaves that memory as it is. The read of the vector is metered: it charges
  two ticks, one for each byte.
\<close>

theorem C10_reset_frame:
  "(\<forall>a. memory (Reset s) a = memory s a)
   \<and> (\<forall>m'. m' 0xFFFC = memory s 0xFFFC \<and> m' 0xFFFD = memory s 0xFFFD
          \<longrightarrow> Reset (s\<lparr>memory := m'\<rparr>) = (Reset s)\<lparr>memory := m'\<rparr>)
   \<and> snd (ReadWord (memory s) VECTOR_RESET c) = c + 2"
  by (simp add: Reset_eq ReadWord_eq)

theorem C10_reset_frame_witness:
  "(Initialize(0xFFFC := 0x00, 0xFFFD := 0x10, 0x1000 := 0xA9)) 0xFFFC
     = memory (attach CPU_new (Initialize(0xFFFC := 0x00, 0xFFFD := 0x10)) 0) 0xFFFC
   \<and> (Initialize(0xFFFC := 0x00, 0xFFFD := 0x10, 0x1000 := 0xA9)) 0xFFFD
     = memory (attach CPU_new (Initialize(0xFFFC := 0x00, 0xFFFD := 0x10)) 0) 0xFFFD
   \<and> Reset ((attach CPU_new (Initialize(0xFFFC := 0x00, 0xFFFD := 0x10)) 0)
        \<lparr>memory := Initialize(0xFFFC := 0x00, 0xFFFD := 0x10, 0x1000 := 0xA9)\<rparr>)
     = (Reset (attach CPU_new (Initialize(0xFFFC := 0x00, 0xFFFD := 0x10)) 0))
        \<lparr>memory := Initialize(0xFFFC := 0x00, 0xFFFD := 0x10, 0x1000 := 0xA9)\<rparr>"
proof -
  let ?s = "attach CPU_new (Initialize(0xFFFC := 0x00, 0xFFFD := 0x10)) 0"
  let ?m = "Initialize(0xFFFC := 0x00, 0xFFFD := 0x10, 0x1000 := 0xA9) :: Memory"
  have h: "?m 0xFFFC = memory ?s 0xFFFC \<and> ?m 0xFFFD = memory ?s 0xFFFD"
    by (simp add: attach_def)
  from C10_reset_frame [of ?s 0] have
    "?m 0xFFFC = memory ?s 0xFFFC \<and> ?m 0xFFFD = memory ?s 0xFFFD
       \<longrightarrow> Reset (?s\<lparr>memory := ?m\<rparr>) = (Reset ?s)\<lparr>memory := ?m\<rparr>"
    by blast
  with h show ?thesis by blast
qed

section \<open>Indirect jump\<close>

text \<open>
  Claim C4. A step that executes the indirect \<open>JMP\<close> reads its operand pointer from the
  two bytes after the opcode. The low byte of the new \<open>PC\<close> is the byte at the pointer. When
  the low byte of the pointer is 0xFF, the high byte of the new \<open>PC\<close> is the byte at
  \<open>pointer AND 0xFF00\<close>, the start of the same page, and not the byte at \<open>pointer + 1\<close>;
  for every other pointer it is the byte at \<open>pointer + 1\<close>, so that the target is the
  little-endian word at the pointer.
\<close>

theorem C4_indirect_jmp:
  assumes "memory s (PC s) = INS_JMP_IND"
  shows "let lo = memory s (PC s + 1); hi = memory s (PC s + 2);
             pointer = make_word hi lo;
             target = PC (snd (Execute s))
         in (pointer AND 0xFF = 0xFF \<longleftrightarrow> lo = 0xFF)
            \<and> pointer AND 0xFF00 = make_word hi 0
            \<and> ucast target = memory s pointer
            \<and> ucast (drop_bit 8 target) =
                (if pointer AND 0xFF = 0xFF then memory s (pointer AND 0xFF00)
                 else memory s (pointer + 1))"
proof -
  have p2: "PC s + 1 + 1 = PC s + 2" by simp
  have "PC (snd (Execute s)) = PC (JMP_indirect (s\<lparr>cycles := 1, PC := PC s + 1\<rparr>))"
    using assms by (simp add: Execute_eq dispatch_JMP_IND)
  then show ?thesis
    by (simp add: JMP_indirect_PC low_byte_make_word high_byte_make_word p2 Let_def
        make_word_page make_word_low_FF)
qed

theorem C4_indirect_jmp_witness:
  "memory (Reset (attach CPU_new (Initialize(0xFFFD := 0x20, 0x2000 := 0x6C, 0x2001 := 0xFF,
        0x2002 := 0x10, 0x10FF := 0x34, 0x1000 := 0x56, 0x1100 := 0x12)) 0))
      (PC (Reset (attach CPU_new (Initialize(0xFFFD := 0x20, 0x2000 := 0x6C, 0x2001 := 0xFF,
        0x2002 := 0x10, 0x10FF := 0x34, 0x1000 := 0x56, 0x1100 := 0x12)) 0))) = INS_JMP_IND
   \<and> ucast (PC (snd (Execute (Reset (attach CPU_new (Initialize(0xFFFD := 0x20, 0x2000 := 0x6C,
        0x2001 := 0xFF, 0x2002 := 0x10, 0x10FF := 0x34, 0x1000 := 0x56, 0x1100 := 0x12)) 0)))))
       = (0x34 :: Byte)
   \<and> ucast (drop_bit 8 (PC (snd (Execute (Reset (attach CPU_new (Initialize(0xFFFD := 0x20,
        0x2000 := 0x6C, 0x2001 := 0xFF, 0x2002 := 0x10, 0x10FF := 0x34, 0x1000 := 0x56,
        0x1100 := 0x12)) 0))))))
       = (0x56 :: Byte)"
proof -
  let ?s = "Reset (attach CPU_new (Initialize(0xFFFD := 0x20, 0x2000 := 0x6C, 0x2001 := 0xFF,
        0x2002 := 0x10, 0x10FF := 0x34, 0x1000 := 0x56, 0x1100 := 0x12)) 0)"
  have pc: "PC ?s = 0x2000"
    by (simp add: Reset_eq attach_def Initialize_def make_word_def)
  have m: "memory ?s 0x2000 = INS_JMP_IND" "memory ?s 0x2001 = 0xFF" "memory ?s 0x2002 = 0x10"
      "memory ?s 0x10FF = 0x34" "memory ?s 0x1000 = 0x56"
    by (simp_all add: Reset_eq attach_def INS_JMP_IND_def)
  have w: "make_word 0x10 0xFF = 0x10FF" "make_word 0x10 0 = 0x1000"
    by (simp_all add: make_word_def)
  have h: "memory ?s (PC ?s) = INS_JMP_IND"
    using pc m by simp
  from C4_indirect_jmp [OF h] show ?thesis
    using h by (simp add: Let_def pc m w)
qed

section \<open>Branches\<close>

text \<open>
  Claim C6. For each of the eight branch instructions, with the condition the dispatch
  tests for it: when the condition is false the step costs exactly 2 cycles and \<open>PC\<close> is
  just past the offset byte; when it is true, \<open>PC\<close> becomes the address past the offset
  byte plus the offset read as a two's-complement 8-bit number and sign-extended, and the
  step costs 3 cycles when the new \<open>PC\<close> has the same high byte (page) as the address past
  the offset byte and 4 cycles otherwise.
\<close>

theorem C6_branches:
  assumes "(memory s (PC s), taken) \<in>
     {(INS_BCC, \<not> GetFlag FLAG_CARRY s), (INS_BCS, GetFlag FLAG_CARRY s),
      (INS_BEQ, GetFlag FLAG_ZERO s), (INS_BNE, \<not> GetFlag FLAG_ZERO s),
      (INS_BMI, GetFlag FLAG_NEGATIVE s), (INS_BPL, \<not> GetFlag FLAG_NEGATIVE s),
      (INS_BVC, \<not> GetFlag FLAG_OVERFLOW s), (INS_BVS, GetFlag FLAG_OVERFLOW s)}"
  shows "(\<not> taken \<longrightarrow> fst (Execute s) = 2 \<and> PC (snd (Execute s)) = PC s + 2)
     \<and> (taken \<longrightarrow>
           PC (snd (Execute s)) = PC s + 2 + word_of_int (sint (memory s (PC s + 1)))
           \<and> fst (Execute s) =
               (if drop_bit 8 (PC (snd (Execute s))) = drop_bit 8 (PC s + 2) then 3 else 4))"
proof -
  have d: "dispatch (memory s (PC s)) (s\<lparr>cycles := 1, PC := PC s + 1\<rparr>)
          = BranchIf taken (s\<lparr>cycles := 1, PC := PC s + 1\<rparr>)"
    using assms by (auto simp add: dispatch_branches GetFlag_frame)
  show ?thesis
  proof (cases taken)
    case True
    with d show ?thesis
      by (simp add: Execute_eq BranchIf_taken_PC BranchIf_taken_cycles)
  next
    case False
    with d show ?thesis
      by (simp add: Execute_eq BranchIf_not_taken)
  qed
qed

theorem C6_branches_witness:
  "(memory ((Reset (attach CPU_new (Initialize(0xFFFD := 0x10, 0x1000 := 0xD0, 0x1001 := 0xFA)) 0)))
      (PC (Reset (attach CPU_new (Initialize(0xFFFD := 0x10, 0x1000 := 0xD0, 0x1001 := 0xFA)) 0))),
    True) \<in> {(INS_BNE, \<not> GetFlag FLAG_ZERO
        (Reset (attach CPU_new (Initialize(0xFFFD := 0x10, 0x1000 := 0xD0, 0x1001 := 0xFA)) 0)))}
   \<and> fst (Execute (Reset (attach CPU_new (Initialize(0xFFFD := 0x10, 0x1000 := 0xD0, 0x1001 := 0xFA)) 0))) = 4
   \<and> PC (snd (Execute (Reset (attach CPU_new (Initialize(0xFFFD := 0x10, 0x1000 := 0xD0, 0x1001 := 0xFA)) 0)))) = 0x0FFC
   \<and> fst (Execute (Reset (attach CPU_new (Initialize(0xFFFD := 0x10, 0x1000 := 0xF0, 0x1001 := 0xFA)) 0))) = 2
   \<and> PC (snd (Execute (Reset (attach CPU_new (Initialize(0xFFFD := 0x10, 0x1000 := 0xF0, 0x1001 := 0xFA)) 0)))) = 0x1002"
proof -
  let ?s = "Reset (attach CPU_new (Initialize(0xFFFD := 0x10, 0x1000 := 0xD0, 0x1001 := 0xFA)) 0)"
  let ?t = "Reset (attach CPU_new (Initialize(0xFFFD := 0x10, 0x1000 := 0xF0, 0x1001 := 0xFA)) 0)"
  have pc: "PC ?s = 0x1000" "PC ?t = 0x1000"
    by (simp_all add: Reset_eq attach_def Initialize_def make_word_def)
  have m: "memory ?s 0x1000 = INS_BNE" "memory ?s 0x1001 = 0xFA"
      "memory ?t 0x1000 = INS_BEQ" "memory ?t 0x1001 = 0xFA"
    by (simp_all add: Reset_eq attach_def INS_BNE_def INS_BEQ_def)
  have z: "\<not> GetFlag FLAG_ZERO ?s" "\<not> GetFlag FLAG_ZERO ?t"
    by (simp_all add: Reset_eq GetFlag_def FLAG_ZERO_def)
  have hs: "(memory ?s (PC ?s), True) \<in> {(INS_BNE, \<not> GetFlag FLAG_ZERO ?s)}"
    using pc m z by simp
  have ht: "(memory ?t (PC ?t), False) \<in> {(INS_BEQ, GetFlag FLAG_ZERO ?t)}"
    using pc m z by simp
  from hs have "fst (Execute ?s) = 4 \<and> PC (snd (Execute ?s)) = 0x0FFC"
    using C6_branches [of ?s True] pc m by simp
  moreover from ht have "fst (Execute ?t) = 2 \<and> PC (snd (Execute ?t)) = 0x1002"
    using C6_branches [of ?t False] pc by simp
  ultimately show ?thesis using hs by blast
qed

section \<open>Unknown opcodes\<close>

text \<open>
  Claim C7. The dispatch has 151 legal opcodes, all different. A step whose opcode byte is
  not one of them returns 2 cycles (the opcode fetch and one more tick), advances \<open>PC\<close>
  by exactly 1, and leaves \<open>A\<close>, \<open>X\<close>, \<open>Y\<close>, \<open>SP\<close>, \<open>P\<close> and every byte of memory as
  they were; \<open>TotalCycles\<close> grows by the 2 cycles.
\<close>

theorem C7_unknown_opcode:
  "length legal_opcodes = 151 \<and> distinct legal_opcodes
   \<and> (memory s (PC s) \<notin> set legal_opcodes \<longrightarrow>
        fst (Execute s) = 2
        \<and> PC (snd (Execute s)) = PC s + 1
        \<and> A (snd (Execute s)) = A s \<and> X (snd (Execute s)) = X s \<and> Y (snd (Execute s)) = Y s
        \<and> SP (snd (Execute s)) = SP s \<and> P (snd (Execute s)) = P s
        \<and> (\<forall>a. memory (snd (Execute s)) a = memory s a)
        \<and> TotalCycles (snd (Execute s)) = TotalCycles s + 2)"
  by (simp add: legal_count legal_distinct Execute_eq dispatch_unknown)

theorem C7_unknown_opcode_witness:
  "memory (Reset (attach CPU_new (Initialize(0xFFFD := 0x10, 0x1000 := 0x02)) 0))
      (PC (Reset (attach CPU_new (Initialize(0xFFFD := 0x10, 0x1000 := 0x02)) 0)))
     \<notin> set legal_opcodes
   \<and> fst (Execute (Reset (attach CPU_new (Initialize(0xFFFD := 0x10, 0x1000 := 0x02)) 0))) = 2
   \<and> PC (snd (Execute (Reset (attach CPU_new (Initialize(0xFFFD := 0x10, 0x1000 := 0x02)) 0))))
       = 0x1001
   \<and> P (snd (Execute (Reset (attach CPU_new (Initialize(0xFFFD := 0x10, 0x1000 := 0x02)) 0))))
       = 0x24"
proof -
  let ?s = "Reset (attach CPU_new (Initialize(0xFFFD := 0x10, 0x1000 := 0x02)) 0)"
  have pc: "PC ?s = 0x1000"
    by (simp add: Reset_eq attach_def Initialize_def make_word_def)
  have m: "memory ?s 0x1000 = 0x02"
    by (simp add: Reset_eq attach_def)
  have p: "P ?s = 0x24"
    by (simp add: Reset_eq)
  have h: "memory ?s (PC ?s) \<notin> set legal_opcodes"
    unfolding pc m by (simp add: legal_opcodes_def opcode_defs)
  from C7_unknown_opcode [of ?s] h show ?thesis
    by (simp add: pc p)
qed

section \<open>Indexed stores\<close>

text \<open>
  Claim C1, at the input where the code departs from it. A step executing \<open>STA abs,X\<close>
  returns 4 cycles, not 5, both when adding \<open>X\<close> to the base address crosses a page
  (base 0x10F0, \<open>X\<close> = 0x20) and when it does not (base 0x10F0, \<open>X\<close> = 0x01): the count
  is fixed, but the fixed extra cycle of an indexed store is never charged.
\<close>

theorem C1_sta_absx_four_cycles:
  "memory ((Reset (attach CPU_new (Initialize(0xFFFD := 0x10, 0x1000 := 0x9D, 0x1001 := 0xF0,
       0x1002 := 0x10)) 0))\<lparr>X := 0x20\<rparr>) 0x1000 = INS_STA_ABSX
   \<and> fst (Execute ((Reset (attach CPU_new (Initialize(0xFFFD := 0x10, 0x1000 := 0x9D,
       0x1001 := 0xF0, 0x1002 := 0x10)) 0))\<lparr>X := 0x20\<rparr>)) = 4
   \<and> fst (Execute ((Reset (attach CPU_new (Initialize(0xFFFD := 0x10, 0x1000 := 0x9D,
       0x1001 := 0xF0, 0x1002 := 0x10)) 0))\<lparr>X := 0x01\<rparr>)) = 4"
proof -
  let ?m = "Initialize(0xFFFD := 0x10, 0x1000 := 0x9D, 0x1001 := 0xF0, 0x1002 := 0x10)"
  have "memory ((Reset (attach CPU_new ?m 0))\<lparr>X := x\<rparr>) (PC ((Reset (attach CPU_new ?m 0))\<lparr>X := x\<rparr>))
          = INS_STA_ABSX" for x
    by (simp add: Reset_eq attach_def Initialize_def make_word_def INS_STA_ABSX_def)
  then show ?thesis
    by (simp add: Execute_STA_indexed) (simp add: Reset_eq attach_def INS_STA_ABSX_def)
qed

section \<open>Decimal subtraction\<close>

text \<open>
  Claim C2, at the input where the code departs from it. With \<open>D\<close> = 1, \<open>C\<close> = 1,
  \<open>V\<close> = 0 and \<open>A\<close> = 0x80, a step executing \<open>SBC #$01\<close> yields \<open>A\<close> = 0x79 and
  leaves \<open>V\<close> clear, although the rule \<open>(A ^ sum) & ((M XOR 0xFF) ^ sum) & 0x80\<close> of the
  binary mode is not zero for these operands; the same step with \<open>D\<close> = 0 sets \<open>V\<close>.
\<close>

theorem C2_decimal_sbc_leaves_overflow:
  "GetFlag FLAG_DECIMAL ((Reset (attach CPU_new (Initialize(0xFFFD := 0x10, 0x1000 := 0xE9,
       0x1001 := 0x01)) 0))\<lparr>A := 0x80, P := 0x2D\<rparr>)
   \<and> \<not> GetFlag FLAG_OVERFLOW (snd (Execute ((Reset (attach CPU_new (Initialize(0xFFFD := 0x10,
       0x1000 := 0xE9, 0x1001 := 0x01)) 0))\<lparr>A := 0x80, P := 0x2D\<rparr>)))
   \<and> A (snd (Execute ((Reset (attach CPU_new (Initialize(0xFFFD := 0x10,
       0x1000 := 0xE9, 0x1001 := 0x01)) 0))\<lparr>A := 0x80, P := 0x2D\<rparr>))) = 0x79
   \<and> ((0x80 XOR (0x80 + (0x01 XOR 0xFF) + 1)) AND ((0x01 XOR 0xFF) XOR (0x80 + (0x01 XOR 0xFF) + 1))
        AND 0x80 :: Word) \<noteq> 0
   \<and> GetFlag FLAG_OVERFLOW (snd (Execute ((Reset (attach CPU_new (Initialize(0xFFFD := 0x10,
       0x1000 := 0xE9, 0x1001 := 0x01)) 0))\<lparr>A := 0x80, P := 0x25\<rparr>)))"
  by (simp add: Execute_eq Reset_eq attach_def Initialize_def make_word_def INS_SBC_IM_def [symmetric]
      dispatch_SBC_IM with_address_def AddrImmediate_def SBC_def mem_read_eq
      UpdateZeroAndNegativeFlags_def SetFlag_def GetFlag_def Let_def
      FLAG_DECIMAL_def FLAG_CARRY_def FLAG_OVERFLOW_def FLAG_ZERO_def FLAG_NEGATIVE_def)

section \<open>The Unused bit\<close>

text \<open>
  Claim C3, as the code has it: the constructor leaves \<open>P\<close> = 0, so bit 5 is clear after
  construction.
\<close>

theorem C3_construction_counterexample:
  "P CPU_new = 0 \<and> P CPU_new AND 0x20 = 0 \<and> \<not> bit (P CPU_new) 5"
  by (simp add: CPU_new_def)

text \<open>
  Claim C3, amended. Bit 5 of \<open>P\<close> is 1 after \<open>Reset\<close>. A step started with bit 5 set
  leaves it set, and so does a run of steps for a cycle budget when it returns. After a
  step executing \<open>PLP\<close> or \<open>RTI\<close> bit 5 is set whatever \<open>P\<close> was before. The status byte
  that a step executing \<open>PHP\<close> pushes (at 0x0100 + \<open>SP\<close>) and the one that a step
  executing \<open>BRK\<close> pushes (third push, at 0x0100 + (\<open>SP\<close> - 2)) have bit 5 set.
\<close>

theorem C3_unused_bit:
  "bit (P (Reset s)) 5
   \<and> (bit (P s) 5 \<longrightarrow> bit (P (snd (Execute s))) 5)
   \<and> (bit (P s) 5 \<and> Execute_cycles b s = Some (c, s') \<longrightarrow> bit (P s') 5)
   \<and> (memory s (PC s) = INS_PLP \<or> memory s (PC s) = INS_RTI \<longrightarrow> bit (P (snd (Execute s))) 5)
   \<and> (memory s (PC s) = INS_PHP \<longrightarrow>
         bit (memory (snd (Execute s)) (STACK_BASE + ucast (SP s))) 5)
   \<and> (memory s (PC s) = INS_BRK \<longrightarrow>
         bit (memory (snd (Execute s)) (STACK_BASE + ucast (SP s - 2))) 5)"
proof -
  have r: "bit (P (Reset s)) 5"
    by (simp add: Reset_eq)
  have l: "bit (P s) 5 \<and> Execute_cycles b s = Some (c, s') \<longrightarrow> bit (P s') 5"
    using Execute_loop_bit5 [of b 0 s "(c, s')"] by (simp add: Execute_cycles_def)
  have p: "memory s (PC s) = INS_PLP \<or> memory s (PC s) = INS_RTI \<longrightarrow> bit (P (snd (Execute s))) 5"
    by (auto simp add: Execute_eq dispatch_status imp_bit5)
  have h: "memory s (PC s) = INS_PHP \<longrightarrow>
         bit (memory (snd (Execute s)) (STACK_BASE + ucast (SP s))) 5"
    using PHP_pushed [of "s\<lparr>cycles := 1, PC := PC s + 1\<rparr>"]
    by (simp add: Execute_eq dispatch_status bit5_pushed)
  have k: "memory s (PC s) = INS_BRK \<longrightarrow>
         bit (memory (snd (Execute s)) (STACK_BASE + ucast (SP s - 2))) 5"
    using BRK_pushed [of "s\<lparr>cycles := 1, PC := PC s + 1\<rparr>"]
    by (simp add: Execute_eq dispatch_status bit5_pushed)
  from r l p h k Execute_bit5 [of s] show ?thesis by blast
qed

theorem C3_unused_bit_witness:
  "bit (P (Reset (attach CPU_new (Initialize(0xFFFD := 0x10, 0x1000 := 0xEA)) 0))) 5
   \<and> Execute_cycles 2 (Reset (attach CPU_new (Initialize(0xFFFD := 0x10, 0x1000 := 0xEA)) 0))
       = Some (2, snd (Execute (Reset (attach CPU_new (Initialize(0xFFFD := 0x10, 0x1000 := 0xEA)) 0))))
   \<and> bit (P (snd (Execute (Reset (attach CPU_new (Initialize(0xFFFD := 0x10, 0x1000 := 0xEA)) 0))))) 5
   \<and> memory (attach CPU_new (Initialize(0x0000 := 0x28)) 0) (PC (attach CPU_new (Initialize(0x0000 := 0x28)) 0))
       = INS_PLP
   \<and> bit (P (snd (Execute (attach CPU_new (Initialize(0x0000 := 0x28)) 0)))) 5
   \<and> memory (attach CPU_new (Initialize(0x0000 := 0x08)) 0) (PC (attach CPU_new (Initialize(0x0000 := 0x08)) 0))
       = INS_PHP
   \<and> bit (memory (snd (Execute (attach CPU_new (Initialize(0x0000 := 0x08)) 0))) 0x0100) 5
   \<and> memory (attach CPU_new Initialize 0) (PC (attach CPU_new Initialize 0)) = INS_BRK
   \<and> bit (memory (snd (Execute (attach CPU_new Initialize 0))) 0x01FE) 5"
proof -
  let ?s1 = "Reset (attach CPU_new (Initialize(0xFFFD := 0x10, 0x1000 := 0xEA)) 0)"
  let ?s2 = "attach CPU_new (Initialize(0x0000 := 0x28)) 0"
  let ?s3 = "attach CPU_new (Initialize(0x0000 := 0x08)) 0"
  let ?s4 = "attach CPU_new Initialize 0"
  have b1: "bit (P ?s1) 5"
    by (simp add: Reset_eq)
  have n1: "memory ?s1 (PC ?s1) = INS_NOP"
    by (simp add: Reset_eq attach_def Initialize_def make_word_def INS_NOP_def)
  have e1: "Execute_cycles 2 ?s1 = Some (2, snd (Execute ?s1))"
    unfolding Execute_cycles_def
    by (subst Execute_loop.simps, simp add: Execute_NOP [OF n1], subst Execute_loop.simps, simp)
  have h2: "memory ?s2 (PC ?s2) = INS_PLP"
    by (simp add: attach_def CPU_new_def INS_PLP_def)
  have h3: "memory ?s3 (PC ?s3) = INS_PHP"
    by (simp add: attach_def CPU_new_def INS_PHP_def)
  have h4: "memory ?s4 (PC ?s4) = INS_BRK"
    by (simp add: attach_def CPU_new_def INS_BRK_def Initialize_def)
  have sp: "SP ?s3 = 0" "SP ?s4 = 0"
    by (simp_all add: attach_def CPU_new_def)
  from C3_unused_bit [of ?s1 2 2 "snd (Execute ?s1)"] b1 e1
  have c1: "bit (P (snd (Execute ?s1))) 5" by blast
  from C3_unused_bit [of ?s2 0 0 ?s2] h2
  have c2: "bit (P (snd (Execute ?s2))) 5" by blast
  from C3_unused_bit [of ?s3 0 0 ?s3] h3
  have "bit (memory (snd (Execute ?s3)) (STACK_BASE + ucast (SP ?s3))) 5" by blast
  then have c3: "bit (memory (snd (Execute ?s3)) 0x0100) 5"
    by (simp add: sp STACK_BASE_def)
  from C3_unused_bit [of ?s4 0 0 ?s4] h4
  have "bit (memory (snd (Execute ?s4)) (STACK_BASE + ucast (SP ?s4 - 2))) 5" by blast
  then have c4: "bit (memory (snd (Execute ?s4)) 0x01FE) 5"
    by (simp add: sp STACK_BASE_def)
  from b1 e1 c1 h2 c2 h3 c3 h4 c4 show ?thesis by blast
qed

section \<open>Decimal addition\<close>

text \<open>
  Claim C5, at the inputs where the code departs from it. With \<open>D\<close> = 1, \<open>C\<close> = 0 and
  \<open>A\<close> = 0x80, the step executing \<open>ADC #$80\<close> yields \<open>A\<close> = 0x00 with \<open>C\<close> = 1, where
  the decimal sum 80 + 80 = 160 is \<open>A\<close> = 0x60 with \<open>C\<close> = 1; with \<open>C\<close> = 1 and
  \<open>A\<close> = 0x99, the step executing \<open>ADC #$99\<close> yields \<open>A\<close> = 0x39, where
  99 + 99 + 1 = 199 is \<open>A\<close> = 0x99. The intermediate result is 0x100 or more, its bits 4 to 7
  are not above 9, and the code tests only these bits before it adds 0x60.
\<close>

theorem C5_decimal_adc_high_carry:
  "GetFlag FLAG_DECIMAL ((Reset (attach CPU_new (Initialize(0xFFFD := 0x10, 0x1000 := 0x69,
        0x1001 := 0x80)) 0))\<lparr>A := 0x80, P := 0x2C\<rparr>)
   \<and> \<not> GetFlag FLAG_CARRY ((Reset (attach CPU_new (Initialize(0xFFFD := 0x10, 0x1000 := 0x69,
        0x1001 := 0x80)) 0))\<lparr>A := 0x80, P := 0x2C\<rparr>)
   \<and> A (snd (Execute ((Reset (attach CPU_new (Initialize(0xFFFD := 0x10, 0x1000 := 0x69,
        0x1001 := 0x80)) 0))\<lparr>A := 0x80, P := 0x2C\<rparr>))) = 0x00
   \<and> GetFlag FLAG_CARRY (snd (Execute ((Reset (attach CPU_new (Initialize(0xFFFD := 0x10,
        0x1000 := 0x69, 0x1001 := 0x80)) 0))\<lparr>A := 0x80, P := 0x2C\<rparr>)))
   \<and> GetFlag FLAG_DECIMAL ((Reset (attach CPU_new (Initialize(0xFFFD := 0x10, 0x1000 := 0x69,
        0x1001 := 0x99)) 0))\<lparr>A := 0x99, P := 0x2D\<rparr>)
   \<and> GetFlag FLAG_CARRY ((Reset (attach CPU_new (Initialize(0xFFFD := 0x10, 0x1000 := 0x69,
        0x1001 := 0x99)) 0))\<lparr>A := 0x99, P := 0x2D\<rparr>)
   \<and> A (snd (Execute ((Reset (attach CPU_new (Initialize(0xFFFD := 0x10, 0x1000 := 0x69,
        0x1001 := 0x99)) 0))\<lparr>A := 0x99, P := 0x2D\<rparr>))) = 0x39
   \<and> GetFlag FLAG_CARRY (snd (Execute ((Reset (attach CPU_new (Initialize(0xFFFD := 0x10,
        0x1000 := 0x69, 0x1001 := 0x99)) 0))\<lparr>A := 0x99, P := 0x2D\<rparr>)))"
  by (simp add: Execute_eq Reset_eq attach_def Initialize_def make_word_def INS_ADC_IM_def [symmetric]
      dispatch_ADC_IM with_address_def AddrImmediate_def ADC_def mem_read_eq
      SetFlag_def GetFlag_def Let_def
      FLAG_DECIMAL_def FLAG_CARRY_def FLAG_OVERFLOW_def FLAG_ZERO_def FLAG_NEGATIVE_def)

section \<open>Running for a cycle budget\<close>

text \<open>
  Claim C9, as the code has it: the cycle counts are 64-bit, and the count of executed
  cycles can wrap around before it reaches a budget near the top of the range. With the
  budget \<open>2^64 - 1\<close> on a memory of \<open>NOP\<close>s (2 cycles each) the count stays even and the
  loop never returns.
\<close>

theorem C9_budget_counterexample:
  "Execute_cycles 0xFFFFFFFFFFFFFFFF (attach CPU_new nop_memory 0) = None"
proof (cases "Execute_cycles 0xFFFFFFFFFFFFFFFF (attach CPU_new nop_memory 0)")
  case None
  then show ?thesis .
next
  case (Some r)
  have m: "(0xFFFFFFFFFFFFFFFF :: Cycles) = - 1"
    by simp
  from Some have "Execute_loop (- 1) 0 (attach CPU_new nop_memory 0) = Some r"
    unfolding Execute_cycles_def m .
  from Execute_loop_never [OF this] show ?thesis
    by (simp add: attach_def)
qed

text \<open>
  Claim C9, amended. For every cycle budget \<open>b \<le> 2^64 - 7\<close> and every machine, the run
  returns: it executes some number \<open>n\<close> of whole instructions and returns the sum of their
  cycles, which is at least \<open>b\<close>. When \<open>b > 0\<close> at least one instruction is executed, the
  count before the final instruction is below \<open>b\<close>, and so the returned count exceeds \<open>b\<close>
  by less than the cycles of the final instruction. Every step returns at least one cycle.
\<close>

theorem C9_run_for:
  assumes "b \<le> 0xFFFFFFFFFFFFFFF9"
  shows "\<exists>n. Execute_cycles b s = Some (spent n s, run n s)
           \<and> b \<le> spent n s
           \<and> (0 < b \<longrightarrow> (\<exists>m. n = Suc m \<and> spent m s < b
                  \<and> spent n s = spent m s + fst (Execute (run m s))
                  \<and> unat (spent n s) < unat b + unat (fst (Execute (run m s)))))
           \<and> 1 \<le> fst (Execute s)"
proof -
  from assms have "unat b \<le> 18446744073709551609"
    by (simp add: word_le_nat_alt)
  then have "unat b + 6 < 2 ^ 64" by simp
  from Execute_loop_total [OF this, of 0 s] obtain n where
    r: "Execute_loop b 0 s = Some (spent n s, run n s)" and ge: "b \<le> spent n s"
    and last: "0 < b \<longrightarrow> (\<exists>m. n = Suc m \<and> spent m s < b
        \<and> unat (spent n s) = unat (spent m s) + unat (fst (Execute (run m s))))"
    by auto
  have "0 < b \<longrightarrow> (\<exists>m. n = Suc m \<and> spent m s < b
        \<and> spent n s = spent m s + fst (Execute (run m s))
        \<and> unat (spent n s) < unat b + unat (fst (Execute (run m s))))"
  proof
    assume "0 < b"
    with last obtain m where m: "n = Suc m" "spent m s < b"
      "unat (spent n s) = unat (spent m s) + unat (fst (Execute (run m s)))"
      by blast
    from m(1) have "spent n s = spent m s + fst (Execute (run m s))"
      by (simp only: spent_last)
    moreover from m(2) have "unat (spent m s) < unat b"
      by (simp add: word_less_nat_alt)
    ultimately show "\<exists>m. n = Suc m \<and> spent m s < b
        \<and> spent n s = spent m s + fst (Execute (run m s))
        \<and> unat (spent n s) < unat b + unat (fst (Execute (run m s)))"
      using m by auto
  qed
  moreover have "1 \<le> fst (Execute s)"
    using Execute_cost_range [of s] by auto
  ultimately show ?thesis
    using r ge by (auto simp add: Execute_cycles_def)
qed

theorem C9_run_for_witness:
  "(3 :: Cycles) \<le> 0xFFFFFFFFFFFFFFF9 \<and> (0 :: Cycles) < 3
   \<and> Execute_cycles 3 (attach CPU_new nop_memory 0)
       = Some (4, run 2 (attach CPU_new nop_memory 0))
   \<and> (\<exists>n. Execute_cycles 3 (attach CPU_new nop_memory 0)
             = Some (spent n (attach CPU_new nop_memory 0), run n (attach CPU_new nop_memory 0))
           \<and> 3 \<le> spent n (attach CPU_new nop_memory 0)
           \<and> (\<exists>m. n = Suc m \<and> spent m (attach CPU_new nop_memory 0) < 3
                \<and> unat (spent n (attach CPU_new nop_memory 0))
                    < 3 + unat (fst (Execute (run m (attach CPU_new nop_memory 0))))))"
proof -
  let ?s = "attach CPU_new nop_memory 0"
  have h: "(3 :: Cycles) \<le> 0xFFFFFFFFFFFFFFF9" and p: "(0 :: Cycles) < 3"
    by simp_all
  have n: "Execute t = (2, t\<lparr>cycles := 2, PC := PC t + 1, TotalCycles := TotalCycles t + 2\<rparr>)"
    if "memory t = nop_memory" for t
    using that Execute_NOP [of t] by (simp add: nop_memory_def)
  have m: "memory ?s = nop_memory" "memory (snd (Execute ?s)) = nop_memory"
    by (simp_all add: n attach_def)
  have r2: "run 2 ?s = snd (Execute (snd (Execute ?s)))"
    by (simp add: numeral_2_eq_2)
  have "Execute_loop 3 0 ?s = Execute_loop 3 2 (snd (Execute ?s))"
    by (subst Execute_loop.simps) (simp add: n [OF m(1)])
  also have "\<dots> = Execute_loop 3 4 (snd (Execute (snd (Execute ?s))))"
    by (subst Execute_loop.simps) (simp add: n [OF m(2)])
  also have "\<dots> = Some (4, snd (Execute (snd (Execute ?s))))"
    by (subst Execute_loop.simps) simp
  finally have e: "Execute_cycles 3 ?s = Some (4, run 2 ?s)"
    by (simp add: Execute_cycles_def r2)
  from C9_run_for [OF h, of ?s] p obtain k where
    "Execute_cycles 3 ?s = Some (spent k ?s, run k ?s)" "3 \<le> spent k ?s"
    "\<exists>m. k = Suc m \<and> spent m ?s < 3
        \<and> unat (spent k ?s) < unat (3 :: Cycles) + unat (fst (Execute (run m ?s)))"
    by blast
  then have "\<exists>n. Execute_cycles 3 ?s = Some (spent n ?s, run n ?s) \<and> 3 \<le> spent n ?s
      \<and> (\<exists>m. n = Suc m \<and> spent m ?s < 3
            \<and> unat (spent n ?s) < 3 + unat (fst (Execute (run m ?s))))"
    by auto
  with h p e show ?thesis by blast
qed

end
